theory Spec2Isabelle
  imports
    Complex_Main
    "HOL-Library.Multiset"
    "HOL-Library.Char_ord"
    "HOL-Library.List_Lexorder"
begin

unbundle bit_operations_syntax

section \<open>JavaScript strings and values\<close>

text \<open>
  Strings of the program are HOL strings. The helpers below follow the
  \<^verbatim>\<open>String.prototype\<close> methods the source calls: \<^verbatim>\<open>includes\<close>,
  \<^verbatim>\<open>startsWith\<close>, \<^verbatim>\<open>endsWith\<close>, \<^verbatim>\<open>split\<close> and
  \<^verbatim>\<open>Array.prototype.join\<close>.
\<close>

definition startsWith :: "string \<Rightarrow> string \<Rightarrow> bool" where
  "startsWith s p = (take (length p) s = p)"

definition endsWith :: "string \<Rightarrow> string \<Rightarrow> bool" where
  "endsWith s p = (length p \<le> length s \<and> drop (length s - length p) s = p)"

fun str_includes :: "string \<Rightarrow> string \<Rightarrow> bool" where
  "str_includes [] sub = (sub = [])"
| "str_includes (c # cs) sub = (startsWith (c # cs) sub \<or> str_includes cs sub)"

fun splitOn :: "char \<Rightarrow> string \<Rightarrow> string list" where
  "splitOn c [] = [[]]"
| "splitOn c (a # as) =
     (if a = c then [] # splitOn c as
      else (case splitOn c as of
              [] \<Rightarrow> [[a]]
            | w # ws \<Rightarrow> (a # w) # ws))"

fun join :: "string \<Rightarrow> string list \<Rightarrow> string" where
  "join sep [] = []"
| "join sep [a] = a"
| "join sep (a # b # rest) = a @ sep @ join sep (b # rest)"

text \<open>
  A property value as the snapshot's JSON can deliver it. \<open>JUndefined\<close> is a
  missing property.
\<close>

datatype jsval = JUndefined | JNull | JBool bool | JNum int | JStr string

fun truthy :: "jsval \<Rightarrow> bool" where
  "truthy JUndefined = False"
| "truthy JNull = False"
| "truthy (JBool b) = b"
| "truthy (JNum n) = (n \<noteq> 0)"
| "truthy (JStr s) = (s \<noteq> [])"

text \<open>\<^verbatim>\<open>v || d\<close> for an optional string: the empty string is falsy.\<close>

definition orDefault :: "string option \<Rightarrow> string \<Rightarrow> string" where
  "orDefault v d = (case v of None \<Rightarrow> d | Some s \<Rightarrow> if s = [] then d else s)"

section \<open>Block records\<close>

record stairData =
  sd_facing :: "string option"
  sd_half :: "string option"
  sd_shape :: "string option"

record trapdoorState =
  ts_open :: jsval
  ts_half :: "string option"
  ts_facing :: "string option"

text \<open>
  One record of the snapshot's \<^verbatim>\<open>blocks\<close> array, with the properties the
  pipeline reads or writes. \<open>None\<close> is \<^verbatim>\<open>undefined\<close>. The field
  \<open>b_extra_isUpperSlab\<close> is \<^verbatim>\<open>extra_data?.isUpperSlab\<close>: the outer
  \<open>None\<close> is a record without \<^verbatim>\<open>extra_data\<close>.
\<close>

record block =
  b_type :: string
  b_x :: int
  b_y :: int
  b_z :: int
  b_data :: "int option"
  b_isUpperSlab :: "bool option"
  b_extra_isUpperSlab :: "bool option option"
  b_stairData :: "stairData option"
  b_facing :: "string option"
  b_half :: "string option"
  b_shape :: "string option"
  b_trapdoorState :: "trapdoorState option"
  b_color :: "string option"
  b_connections :: "(string \<times> jsval) list option"
  b_hanging :: "bool option"
  b_material :: "string option"
  b_is_double_plant_bottom :: bool
  b_is_double_plant_top :: bool
  b_originalData :: "int option"
  b_originalType :: "string option"
  b_isCross :: bool

text \<open>An object literal \<^verbatim>\<open>{type, x, y, z}\<close> with no other property.\<close>

definition plainBlock :: "string \<Rightarrow> int \<Rightarrow> int \<Rightarrow> int \<Rightarrow> block" where
  "plainBlock t px py pz =
     \<lparr> b_type = t, b_x = px, b_y = py, b_z = pz, b_data = None,
       b_isUpperSlab = None, b_extra_isUpperSlab = None, b_stairData = None,
       b_facing = None, b_half = None, b_shape = None, b_trapdoorState = None,
       b_color = None, b_connections = None, b_hanging = None, b_material = None,
       b_is_double_plant_bottom = False, b_is_double_plant_top = False,
       b_originalData = None, b_originalType = None, b_isCross = False \<rparr>"

section \<open>Snapshot normalisation: \<^verbatim>\<open>WorldLoader.processBlocks\<close>\<close>

type_synonym pos = "int \<times> int \<times> int"

text \<open>
  The position map of \<^verbatim>\<open>processBlocks\<close>, keyed by the string
  \<^verbatim>\<open>`${x},${y},${z}`\<close> (here the triple). A value is a block or
  \<^verbatim>\<open>null\<close> (\<open>Some None\<close>), the mark of a consumed position.
\<close>

type_synonym blockMap = "pos \<rightharpoonup> block option"

definition posKey :: "block \<Rightarrow> pos" where
  "posKey b = (b_x b, b_y b, b_z b)"

definition buildBlockMap :: "block list \<Rightarrow> blockMap" where
  "buildBlockMap blocks = foldl (\<lambda>m b. m(posKey b \<mapsto> Some b)) Map.empty blocks"

text \<open>\<^verbatim>\<open>ToInt32\<close> of an integral number, as the operator \<^verbatim>\<open>&\<close> applies it.\<close>

definition toInt32 :: "int \<Rightarrow> int" where
  "toInt32 d = (d + 2 ^ 31) mod 2 ^ 32 - 2 ^ 31"

text \<open>The \<^verbatim>\<open>switch (materialBits)\<close> of the generic-slab branch.\<close>

definition resolveSlabType :: "int option \<Rightarrow> string" where
  "resolveSlabType dat =
     (case dat of
        None \<Rightarrow> ''stone_slab''
      | Some d \<Rightarrow>
          (let materialBits = toInt32 d AND 7 in
           if materialBits = 0 then ''stone_slab''
           else if materialBits = 1 then ''sandstone_slab''
           else if materialBits = 2 then ''oak_slab''
           else if materialBits = 3 then ''cobblestone_slab''
           else if materialBits = 4 then ''brick_slab''
           else if materialBits = 5 then ''stone_brick_slab''
           else if materialBits = 6 then ''nether_brick_slab''
           else if materialBits = 7 then ''quartz_slab''
           else ''stone_slab''))"

definition plantTypeOf :: "string \<Rightarrow> string" where
  "plantTypeOf t =
     (let parts = splitOn CHR ''_'' t
      in if length parts > 2 then parts ! 2 else ''grass'')"

definition slabIsUpper :: "block \<Rightarrow> bool" where
  "slabIsUpper b =
     (b_isUpperSlab b = Some True \<or> b_extra_isUpperSlab b = Some (Some True))"

text \<open>
  The body of the \<^verbatim>\<open>for (const block of blocks)\<close> loop: the map after the
  iteration and the records it pushed.
\<close>

definition processBlock :: "blockMap \<Rightarrow> block \<Rightarrow> blockMap \<times> block list" where
  "processBlock m b =
     (if m (posKey b) = Some None then (m, [])
      else if str_includes (b_type b) ''double_plant'' then
        (let plantType = plantTypeOf (b_type b) in
         (m((b_x b, b_y b + 1, b_z b) \<mapsto> None),
          [ b\<lparr> b_type := ''double_plant_'' @ plantType @ ''_bottom'',
               b_is_double_plant_bottom := True \<rparr>,
            (plainBlock (''double_plant_'' @ plantType @ ''_top'')
               (b_x b) (b_y b + 1) (b_z b))
              \<lparr> b_is_double_plant_top := True \<rparr> ]))
      else if str_includes (b_type b) ''_slab'' \<or> b_type b = ''slab'' then
        (if b_type b = ''slab'' then
           (m, [ b\<lparr> b_type := resolveSlabType (b_data b),
                     b_isUpperSlab := Some (slabIsUpper b),
                     b_originalData := b_data b,
                     b_originalType := Some ''slab'' \<rparr> ])
         else
           (m, [ b\<lparr> b_isUpperSlab := Some (slabIsUpper b),
                     b_originalData := b_data b \<rparr> ]))
      else if str_includes (b_type b) ''_stairs'' \<or> b_type b = ''stairs'' then
        (let sd = (case b_stairData b of
                     None \<Rightarrow> \<lparr> sd_facing = None, sd_half = None, sd_shape = None \<rparr>
                   | Some s \<Rightarrow> s) in
         if b_type b = ''stairs'' then
           (m, [ b\<lparr> b_type := ''spruce_stairs'',
                     b_facing := sd_facing sd, b_half := sd_half sd,
                     b_shape := sd_shape sd,
                     b_originalType := Some ''stairs'' \<rparr> ])
         else
           (m, [ b\<lparr> b_facing := sd_facing sd, b_half := sd_half sd,
                     b_shape := sd_shape sd \<rparr> ]))
      else if str_includes (b_type b) ''_trapdoor'' \<or> b_type b = ''trapdoor'' then
        (case b_trapdoorState b of
           Some ts \<Rightarrow> (m, [b])
         | None \<Rightarrow>
             (m, [ b\<lparr> b_trapdoorState :=
                         Some \<lparr> ts_open = JBool False, ts_half = Some ''bottom'',
                                ts_facing = Some ''north'' \<rparr> \<rparr> ]))
      else if str_includes (b_type b) ''concrete'' \<or> str_includes (b_type b) ''wool'' then
        (m, [ b\<lparr> b_color := Some (orDefault (b_color b) ''white'') \<rparr> ])
      else (m, [b]))"

fun processLoop :: "blockMap \<Rightarrow> block list \<Rightarrow> block list" where
  "processLoop m [] = []"
| "processLoop m (b # bs) =
     (case processBlock m b of (m', pushed) \<Rightarrow> pushed @ processLoop m' bs)"

definition processBlocks :: "block list \<Rightarrow> block list" where
  "processBlocks blocks = processLoop (buildBlockMap blocks) blocks"

text \<open>
  The position map once the loop has run over a prefix of the list, and the
  test of the loop's first line at the record of an index: whether the run of
  \<^verbatim>\<open>processBlocks\<close> finds \<^verbatim>\<open>null\<close> at its position and skips it.
\<close>

fun blockMapAfter :: "blockMap \<Rightarrow> block list \<Rightarrow> blockMap" where
  "blockMapAfter m [] = m"
| "blockMapAfter m (b # bs) = blockMapAfter (fst (processBlock m b)) bs"

definition skippedAt :: "block list \<Rightarrow> nat \<Rightarrow> bool" where
  "skippedAt blocks i =
     (blockMapAfter (buildBlockMap blocks) (take i blocks) (posKey (blocks ! i)) = Some None)"

text \<open>
  The fixed table of the specification: material code \<open>0..7\<close> to slab type.
\<close>

definition slabTable :: "string list" where
  "slabTable =
     [''stone_slab'', ''sandstone_slab'', ''oak_slab'', ''cobblestone_slab'',
      ''brick_slab'', ''stone_brick_slab'', ''nether_brick_slab'', ''quartz_slab'']"

section \<open>The assembly routine \<^verbatim>\<open>init\<close>: filter, type folding, grouping\<close>

definition centerX :: int where
  "centerX = (117 + 139) div 2"

definition centerZ :: int where
  "centerZ = (18 + 36) div 2"

definition minRenderHeight :: int where
  "minRenderHeight = - 1"

definition maxRenderHeight :: int where
  "maxRenderHeight = 189"

text \<open>
  \<^verbatim>\<open>Math.sqrt(dx * dx + dz * dz) > 75\<close> on integral coordinates, written
  without the square root; \<open>farFromCenter_sqrt\<close> below relates the two.
\<close>

definition farFromCenter :: "int \<Rightarrow> int \<Rightarrow> bool" where
  "farFromCenter dx dz = (dx * dx + dz * dz > 75 * 75)"

text \<open>The predicate of \<^verbatim>\<open>allBlocks.filter\<close>.\<close>

definition renderFilter :: "block \<Rightarrow> bool" where
  "renderFilter b =
     (if b_y b < minRenderHeight \<or> b_y b > maxRenderHeight then False
      else if farFromCenter (b_x b - centerX) (b_z b - centerZ) then False
      else True)"

text \<open>
  \<^verbatim>\<open>type.replace(/(oak|birch|dark_oak|...)_/, 'spruce_')\<close>: the leftmost
  position where an alternative followed by an underscore matches, the
  alternatives tried in the order written.
\<close>

definition woodNames :: "string list" where
  "woodNames = [''oak'', ''birch'', ''dark_oak'', ''acacia'', ''jungle'',
                ''mangrove'', ''cherry'', ''crimson'', ''warped'']"

fun replaceWood :: "string \<Rightarrow> string" where
  "replaceWood [] = []"
| "replaceWood (c # cs) =
     (case find (\<lambda>n. startsWith (c # cs) (n @ ''_'')) woodNames of
        Some n \<Rightarrow> ''spruce_'' @ drop (length n + 1) (c # cs)
      | None \<Rightarrow> c # replaceWood cs)"

definition foldWoodType :: "string \<Rightarrow> string" where
  "foldWoodType t =
     (let t1 = (if str_includes t ''oak_'' \<or> str_includes t ''birch_''
                   \<or> str_includes t ''dark_oak_'' \<or> str_includes t ''acacia_''
                   \<or> str_includes t ''jungle_'' \<or> str_includes t ''mangrove_''
                   \<or> str_includes t ''cherry_'' \<or> str_includes t ''crimson_''
                   \<or> str_includes t ''warped_''
                then replaceWood t else t)
      in if t1 = ''planks'' then ''spruce_planks''
         else if t1 = ''log'' \<or> t1 = ''wood'' then ''stripped_spruce_log''
         else t1)"

text \<open>
  The function of \<^verbatim>\<open>.map\<close>. The cobweb case also sets the properties
  \<^verbatim>\<open>texture\<close>, \<^verbatim>\<open>renderType\<close>, \<^verbatim>\<open>transparent\<close>,
  \<^verbatim>\<open>opacity\<close>, \<^verbatim>\<open>alphaTest\<close> and \<^verbatim>\<open>doubleSided\<close> together with
  \<^verbatim>\<open>isCross\<close>; nothing later reads them, and the model keeps
  \<^verbatim>\<open>isCross\<close> for all of them.
\<close>

definition transformBlock :: "block \<Rightarrow> block" where
  "transformBlock b =
     (if b_type b = ''cobweb'' \<or> b_type b = ''web'' then
        b\<lparr> b_type := ''web'', b_isCross := True,
           b_x := b_x b - centerX, b_z := b_z b - centerZ \<rparr>
      else
        b\<lparr> b_type := foldWoodType (b_type b),
           b_x := b_x b - centerX, b_z := b_z b - centerZ,
           b_material :=
             (case b_material b of
                None \<Rightarrow> None
              | Some mt \<Rightarrow>
                  if str_includes mt ''_wood'' \<or> mt = ''wood''
                  then Some ''spruce_wood'' else Some mt) \<rparr>)"

text \<open>Angles are rational multiples of \<open>\<pi>\<close>: \<open>1/2\<close> stands for \<^verbatim>\<open>Math.PI * 0.5\<close>.\<close>

type_synonym angle = rat

text \<open>
  \<^verbatim>\<open>getTrapdoorRotation\<close>. The lookup \<^verbatim>\<open>baseRotations[facing] || Math.PI\<close>
  also replaces the entry \<open>0\<close> of \<^verbatim>\<open>south\<close>, which is falsy.
\<close>

definition getTrapdoorRotation :: "string \<Rightarrow> bool \<Rightarrow> angle" where
  "getTrapdoorRotation facing isOpen =
     (let base = (if facing = ''north'' then Some 1
                  else if facing = ''south'' then Some 0
                  else if facing = ''west'' then Some (3 / 2)
                  else if facing = ''east'' then Some (1 / 2)
                  else None);
          rotation = (case base of None \<Rightarrow> 1 | Some r \<Rightarrow> if r = 0 then 1 else r)
      in if isOpen then rotation + 1 / 2 else rotation)"

text \<open>
  The \<^verbatim>\<open>options\<close> object of an instance group. Each branch of the grouping
  loop writes a different set of properties; the ones a branch does not write
  are \<open>None\<close>.
\<close>

record options =
  o_isUpperSlab :: "bool option"
  o_color :: "string option"
  o_facing :: "string option"
  o_half :: "string option"
  o_shape :: "string option"
  o_trapdoorState :: "trapdoorState option"
  o_connections :: "(string \<times> jsval) list option"
  o_hanging :: "bool option"
  o_material :: "string option"
  o_rotation :: "angle option"
  o_isTop :: "bool option"
  o_isOpen :: "bool option"
  o_key :: "string option"

definition noOptions :: options where
  "noOptions =
     \<lparr> o_isUpperSlab = None, o_color = None, o_facing = None, o_half = None,
       o_shape = None, o_trapdoorState = None, o_connections = None,
       o_hanging = None, o_material = None, o_rotation = None, o_isTop = None,
       o_isOpen = None, o_key = None \<rparr>"

record instanceGroup =
  g_type :: string
  g_options :: options
  g_positions :: "pos list"
  g_count :: nat

text \<open>
  \<^verbatim>\<open>instanceGroups\<close> is a \<^verbatim>\<open>Map\<close>, iterated in insertion order: an
  association list with distinct keys, new keys appended.
\<close>

type_synonym instanceGroups = "(string \<times> instanceGroup) list"

definition hasGroup :: "instanceGroups \<Rightarrow> string \<Rightarrow> bool" where
  "hasGroup gs key = (key \<in> set (map fst gs))"

text \<open>\<^verbatim>\<open>if (!instanceGroups.has(key)) instanceGroups.set(key, {...})\<close>\<close>

definition ensureGroup :: "string \<Rightarrow> string \<Rightarrow> options \<Rightarrow> instanceGroups \<Rightarrow> instanceGroups" where
  "ensureGroup key t opts gs =
     (if hasGroup gs key then gs
      else gs @ [(key, \<lparr> g_type = t, g_options = opts, g_positions = [], g_count = 0 \<rparr>)])"

text \<open>\<^verbatim>\<open>instanceGroups.get(key).positions.push(p); instanceGroups.get(key).count++\<close>\<close>

definition pushPosition :: "string \<Rightarrow> pos \<Rightarrow> instanceGroups \<Rightarrow> instanceGroups" where
  "pushPosition key p gs =
     map (\<lambda>(k, g). if k = key
                    then (k, g\<lparr> g_positions := g_positions g @ [p],
                               g_count := Suc (g_count g) \<rparr>)
                    else (k, g)) gs"

text \<open>
  The directions whose stored value is the string \<^verbatim>\<open>'true'\<close>, in the order
  of \<^verbatim>\<open>Object.entries\<close>, then sorted and joined: the expression shared by
  \<^verbatim>\<open>init\<close> and \<^verbatim>\<open>TextureLoader.loadBlock\<close>. \<^verbatim>\<open>Array.prototype.sort\<close>
  without a comparator orders strings by their code units.
\<close>

definition connectionsKey :: "(string \<times> jsval) list \<Rightarrow> string" where
  "connectionsKey conns =
     join ''_'' (sort (map fst (filter (\<lambda>(dir, v). v = JStr ''true'') conns)))"

definition isSlabKeyed :: "block \<Rightarrow> bool" where
  "isSlabKeyed b =
     (b_isUpperSlab b \<noteq> None
      \<or> (case b_extra_isUpperSlab b of Some (Some v) \<Rightarrow> True | _ \<Rightarrow> False))"

text \<open>\<^verbatim>\<open>block.isUpperSlab ?? block.extra_data?.isUpperSlab ?? false\<close>\<close>

definition upperSlabFlag :: "block \<Rightarrow> bool" where
  "upperSlabFlag b =
     (case b_isUpperSlab b of
        Some v \<Rightarrow> v
      | None \<Rightarrow> (case b_extra_isUpperSlab b of Some (Some v) \<Rightarrow> v | _ \<Rightarrow> False))"

definition trapdoorFacing :: "block \<Rightarrow> string" where
  "trapdoorFacing b =
     (case b_trapdoorState b of None \<Rightarrow> ''north''
      | Some ts \<Rightarrow> orDefault (ts_facing ts) ''north'')"

definition trapdoorIsOpen :: "block \<Rightarrow> bool" where
  "trapdoorIsOpen b =
     (case b_trapdoorState b of None \<Rightarrow> False
      | Some ts \<Rightarrow> ts_open ts = JBool True \<or> ts_open ts = JStr ''true'')"

definition trapdoorIsTop :: "block \<Rightarrow> bool" where
  "trapdoorIsTop b =
     (case b_trapdoorState b of None \<Rightarrow> False
      | Some ts \<Rightarrow> ts_half ts = Some ''top'')"

text \<open>The key under which the grouping loop files a block.\<close>

definition groupKey :: "block \<Rightarrow> string" where
  "groupKey b =
     (if isSlabKeyed b then
        b_type b @ ''_slab_'' @ (if upperSlabFlag b then ''upper'' else ''lower'')
      else if str_includes (b_type b) ''concrete'' \<or> str_includes (b_type b) ''wool'' then
        b_type b
      else if str_includes (b_type b) ''_stairs'' \<or> b_type b = ''stairs'' then
        b_type b @ ''_facing_'' @ orDefault (b_facing b) ''east''
          @ ''_half_'' @ orDefault (b_half b) ''bottom''
      else if str_includes (b_type b) ''_trapdoor'' \<or> b_type b = ''trapdoor'' then
        b_type b @ ''_'' @ trapdoorFacing b
          @ ''_'' @ (if trapdoorIsOpen b then ''open'' else ''closed'')
          @ ''_'' @ (if trapdoorIsTop b then ''top'' else ''bottom'')
      else
        b_type b
          @ (case b_connections b of
               None \<Rightarrow> []
             | Some conns \<Rightarrow>
                 ''_connections_''
                   @ (if connectionsKey conns = [] then ''none'' else connectionsKey conns))
          @ (case b_hanging b of
               None \<Rightarrow> []
             | Some h \<Rightarrow> ''_'' @ (if h then ''hanging'' else ''standing'')))"

text \<open>The \<^verbatim>\<open>options\<close> a branch stores when it creates the group.\<close>

definition groupOptions :: "block \<Rightarrow> options" where
  "groupOptions b =
     (if isSlabKeyed b then
        noOptions\<lparr> o_isUpperSlab := Some (upperSlabFlag b) \<rparr>
      else if str_includes (b_type b) ''concrete'' \<or> str_includes (b_type b) ''wool'' then
        noOptions\<lparr> o_color := Some (orDefault (b_color b) ''white'') \<rparr>
      else if str_includes (b_type b) ''_stairs'' \<or> b_type b = ''stairs'' then
        noOptions\<lparr> o_facing := Some (orDefault (b_facing b) ''east''),
                   o_half := Some (orDefault (b_half b) ''bottom''),
                   o_shape := Some (orDefault (b_shape b) ''straight'') \<rparr>
      else if str_includes (b_type b) ''_trapdoor'' \<or> b_type b = ''trapdoor'' then
        noOptions\<lparr> o_isUpperSlab := b_isUpperSlab b, o_color := b_color b,
                   o_facing := b_facing b, o_half := b_half b, o_shape := b_shape b,
                   o_trapdoorState := b_trapdoorState b,
                   o_connections := b_connections b, o_hanging := b_hanging b,
                   o_material := b_material b,
                   o_rotation := Some (getTrapdoorRotation (trapdoorFacing b) (trapdoorIsOpen b)),
                   o_isTop := Some (trapdoorIsTop b),
                   o_isOpen := Some (trapdoorIsOpen b),
                   o_key := Some (groupKey b) \<rparr>
      else
        noOptions\<lparr> o_isUpperSlab := b_isUpperSlab b,
                   o_trapdoorState := b_trapdoorState b,
                   o_connections := b_connections b,
                   o_hanging := b_hanging b,
                   o_material := b_material b \<rparr>)"

text \<open>
  One iteration of the grouping loop. The slab, colour and stair branches push
  a position themselves (the first two shifted by the centre once more), and
  the statement after the \<^verbatim>\<open>if\<close> chain pushes the block's own position in
  every branch.
\<close>

definition groupStep :: "instanceGroups \<Rightarrow> block \<Rightarrow> instanceGroups" where
  "groupStep gs b =
     (let key = groupKey b;
          gs1 = ensureGroup key (b_type b) (groupOptions b) gs;
          gs2 = (if isSlabKeyed b
                    \<or> str_includes (b_type b) ''concrete'' \<or> str_includes (b_type b) ''wool''
                 then pushPosition key (b_x b - centerX, b_y b, b_z b - centerZ) gs1
                 else if str_includes (b_type b) ''_stairs'' \<or> b_type b = ''stairs''
                 then pushPosition key (b_x b, b_y b, b_z b) gs1
                 else gs1)
      in pushPosition key (b_x b, b_y b, b_z b) gs2)"

definition buildInstanceGroups :: "block list \<Rightarrow> instanceGroups" where
  "buildInstanceGroups allBlocks =
     foldl groupStep [] (map transformBlock (filter renderFilter allBlocks))"

section \<open>Textures, materials and geometries\<close>

text \<open>
  A rejected promise or a thrown error is a value: \<open>Inl e\<close>. An awaited
  step inside \<^verbatim>\<open>try\<close> hands its error to the \<^verbatim>\<open>catch\<close>; a promise
  returned without \<^verbatim>\<open>await\<close> passes its rejection on to the caller.
\<close>

datatype exn = LoadError string | ReferenceError string

text \<open>A loaded image, or the checkerboard of \<^verbatim>\<open>createFallbackTexture\<close>.\<close>

datatype texture = Loaded string | Checkerboard

text \<open>An entry of \<^verbatim>\<open>BLOCK_PROPERTIES\<close>; a missing property is \<open>None\<close>.\<close>

record props =
  p_category :: "string option"
  p_transparent :: "bool option"
  p_alphaCutoff :: "rat option"
  p_opacity :: "rat option"
  p_color :: "nat option"
  p_tintColor :: "nat option"

definition noProps :: props where
  "noProps = \<lparr> p_category = None, p_transparent = None, p_alphaCutoff = None,
                p_opacity = None, p_color = None, p_tintColor = None \<rparr>"

text \<open>An entry of \<^verbatim>\<open>SPECIAL_TEXTURE_MAPPINGS\<close>.\<close>

record texMapping =
  tm_top :: "string option"
  tm_bottom :: "string option"
  tm_side :: "string option"
  tm_default :: "string option"

text \<open>
  What the builders take from outside: whether the image at a path loads
  (\<^verbatim>\<open>loadTexture\<close> rejects otherwise), the path resolution
  \<^verbatim>\<open>getTexturePath\<close>, and the two tables of \<^verbatim>\<open>blockData.js\<close>. The
  theorems hold for every such environment.
\<close>

record env =
  e_loads :: "string \<Rightarrow> bool"
  e_texturePath :: "string \<Rightarrow> string \<Rightarrow> string"
  e_properties :: "string \<Rightarrow> props option"
  e_special :: "string \<Rightarrow> texMapping option"

definition loadTexture :: "env \<Rightarrow> string \<Rightarrow> exn + texture" where
  "loadTexture ev path = (if e_loads ev path then Inr (Loaded path) else Inl (LoadError path))"

text \<open>
  A \<^verbatim>\<open>MeshStandardMaterial\<close> with the parameters the builders vary.
  Roughness, metalness and emissive colour are left out.
\<close>

record material =
  mat_map :: "texture option"
  mat_color :: nat
  mat_wireframe :: bool
  mat_transparent :: bool
  mat_alphaTest :: rat
  mat_opacity :: rat
  mat_doubleSided :: bool
  mat_visible :: bool

definition standardMaterial :: material where
  "standardMaterial =
     \<lparr> mat_map = None, mat_color = 0xFFFFFF, mat_wireframe = False,
       mat_transparent = False, mat_alphaTest = 0, mat_opacity = 1,
       mat_doubleSided = False, mat_visible = True \<rparr>"

definition ratOr :: "rat option \<Rightarrow> rat \<Rightarrow> rat" where
  "ratOr v d = (case v of None \<Rightarrow> d | Some r \<Rightarrow> if r = 0 then d else r)"

definition natOr :: "nat option \<Rightarrow> nat \<Rightarrow> nat" where
  "natOr v d = (case v of None \<Rightarrow> d | Some n \<Rightarrow> if n = 0 then d else n)"

definition boolOr :: "bool option \<Rightarrow> bool" where
  "boolOr v = (case v of None \<Rightarrow> False | Some b \<Rightarrow> b)"

definition createUniformMaterial :: "texture option \<Rightarrow> props \<Rightarrow> material" where
  "createUniformMaterial tex properties =
     standardMaterial\<lparr> mat_map := tex,
       mat_transparent := boolOr (p_transparent properties),
       mat_alphaTest := ratOr (p_alphaCutoff properties) 0,
       mat_opacity := ratOr (p_opacity properties) 1,
       mat_color := natOr (p_color properties) 0xFFFFFF \<rparr>"

definition createLeafMaterial :: "texture option \<Rightarrow> props \<Rightarrow> material" where
  "createLeafMaterial tex properties =
     standardMaterial\<lparr> mat_map := tex, mat_transparent := True,
       mat_alphaTest := ratOr (p_alphaCutoff properties) (1 / 2),
       mat_color := natOr (p_tintColor properties) 0x2E8B57,
       mat_doubleSided := True \<rparr>"

definition faceMaterial :: "texture option \<Rightarrow> props \<Rightarrow> material" where
  "faceMaterial tex properties =
     standardMaterial\<lparr> mat_map := tex,
       mat_transparent := boolOr (p_transparent properties),
       mat_alphaTest := ratOr (p_alphaCutoff properties) 0 \<rparr>"

definition createDirectionalMaterial ::
    "texture option \<Rightarrow> texture option \<Rightarrow> props \<Rightarrow> material list" where
  "createDirectionalMaterial sideTexture endTexture properties =
     (let sideMaterial = faceMaterial sideTexture properties;
          endMaterial = faceMaterial endTexture properties
      in [sideMaterial, sideMaterial, endMaterial, endMaterial, sideMaterial, sideMaterial])"

definition createMultiFaceMaterial ::
    "texture option \<Rightarrow> texture option \<Rightarrow> texture option \<Rightarrow> props \<Rightarrow> string \<Rightarrow> material list" where
  "createMultiFaceMaterial topTexture bottomTexture sideTexture properties blockType =
     (let tint = (case p_tintColor properties of None \<Rightarrow> None
                  | Some c \<Rightarrow> if c = 0 then None else Some c);
          topMaterial0 = faceMaterial topTexture properties;
          bottomMaterial = faceMaterial bottomTexture properties;
          sideMaterial0 = faceMaterial sideTexture properties;
          topMaterial = (case tint of None \<Rightarrow> topMaterial0
                         | Some c \<Rightarrow> topMaterial0\<lparr> mat_color := c \<rparr>);
          sideMaterial = (case tint of None \<Rightarrow> sideMaterial0
                          | Some c \<Rightarrow> if blockType = ''grass_block''
                                      then sideMaterial0\<lparr> mat_color := c \<rparr>
                                      else sideMaterial0)
      in [sideMaterial, sideMaterial, topMaterial, bottomMaterial, sideMaterial, sideMaterial])"

text \<open>The magenta wireframe of \<^verbatim>\<open>createFallbackMaterial\<close>.\<close>

definition createFallbackMaterial :: material where
  "createFallbackMaterial =
     standardMaterial\<lparr> mat_color := 0xFF00FF, mat_wireframe := True \<rparr>"

text \<open>
  A \<^verbatim>\<open>BoxGeometry\<close> by its extents, the translation and the rotation about
  the vertical axis applied to its vertices, and the affine map
  \<open>v \<mapsto> scale * v + offset\<close> applied to the texture coordinate \<open>v\<close> of its four
  side faces.
\<close>

record boxGeometry =
  box_width :: rat
  box_height :: rat
  box_depth :: rat
  box_segments :: nat
  box_center :: "rat \<times> rat \<times> rat"
  box_rotateY :: angle
  box_sideV :: "rat \<times> rat"

definition newBox :: "rat \<Rightarrow> rat \<Rightarrow> rat \<Rightarrow> boxGeometry" where
  "newBox w h d =
     \<lparr> box_width = w, box_height = h, box_depth = d, box_segments = 1,
       box_center = (0, 0, 0), box_rotateY = 0, box_sideV = (1, 0) \<rparr>"

definition translate :: "rat \<Rightarrow> rat \<Rightarrow> rat \<Rightarrow> boxGeometry \<Rightarrow> boxGeometry" where
  "translate tx ty tz g =
     (case box_center g of (cx, cy, cz) \<Rightarrow> g\<lparr> box_center := (cx + tx, cy + ty, cz + tz) \<rparr>)"



datatype geometry =
    Box boxGeometry
  | Plane rat rat
  | Buffer "rat list" "rat list" "nat list"

type_synonym vec3 = "rat \<times> rat \<times> rat"

text \<open>
  A scene node: a mesh (name, geometry, one material or six, position,
  rotation), a point light (colour, intensity, distance) or a group of nodes.
\<close>

datatype node =
    Mesh string geometry "material list" vec3 vec3
  | PointLight nat rat rat
  | Group string "node list" vec3 vec3

definition origin :: vec3 where
  "origin = (0, 0, 0)"

text \<open>\<^verbatim>\<open>getBlockGeometry\<close> and \<^verbatim>\<open>getPlantGeometry\<close>; their cache always
  holds the same value under its one key.\<close>

definition getBlockGeometry :: geometry where
  "getBlockGeometry = Box ((newBox 1 1 1)\<lparr> box_segments := 2 \<rparr>)"

definition getPlantGeometry :: geometry where
  "getPlantGeometry = Plane 1 1"

subsection \<open>Slab geometry and its cache\<close>

type_synonym geometryCache = "string \<rightharpoonup> geometry"

definition getSlabGeometry :: "bool \<Rightarrow> geometryCache \<Rightarrow> geometry \<times> geometryCache" where
  "getSlabGeometry isUpperSlab cache =
     (let cacheKey = (if isUpperSlab then ''upper_slab'' else ''lower_slab'')
      in case cache cacheKey of
           Some g \<Rightarrow> (g, cache)
         | None \<Rightarrow>
             (let g0 = newBox 1 (1 / 2) 1;
                  g1 = (case box_sideV g0 of (s, off) \<Rightarrow>
                          if isUpperSlab
                          then g0\<lparr> box_sideV := (s * (1 / 2), off * (1 / 2)) \<rparr>
                          else g0\<lparr> box_sideV := (s * (1 / 2), off * (1 / 2) + 1 / 2) \<rparr>);
                  g2 = translate 0 (if isUpperSlab then 1 / 4 else - (1 / 4)) 0 g1
              in (Box g2, cache(cacheKey \<mapsto> Box g2))))"







subsection \<open>Stair geometry and its cache\<close>

definition stairVertices :: "rat list" where
  "stairVertices =
     [ - (1/2), - (1/2), - (1/2),   1/2, - (1/2), - (1/2),   1/2, 0, - (1/2),   - (1/2), 0, - (1/2),
       - (1/2), - (1/2), 1/2,   1/2, - (1/2), 1/2,   1/2, 0, 1/2,   - (1/2), 0, 1/2,
       - (1/2), - (1/2), - (1/2),   - (1/2), 0, - (1/2),   - (1/2), 0, 1/2,   - (1/2), - (1/2), 1/2,
       1/2, - (1/2), - (1/2),   1/2, 0, - (1/2),   1/2, 0, 1/2,   1/2, - (1/2), 1/2,
       - (1/2), 0, - (1/2),   1/2, 0, - (1/2),   1/2, 0, 1/2,   - (1/2), 0, 1/2,
       - (1/2), - (1/2), - (1/2),   1/2, - (1/2), - (1/2),   1/2, - (1/2), 1/2,   - (1/2), - (1/2), 1/2,
       - (1/2), 0, - (1/2),   0, 0, - (1/2),   0, 1/2, - (1/2),   - (1/2), 1/2, - (1/2),
       - (1/2), 0, 1/2,   0, 0, 1/2,   0, 1/2, 1/2,   - (1/2), 1/2, 1/2,
       - (1/2), 0, - (1/2),   - (1/2), 1/2, - (1/2),   - (1/2), 1/2, 1/2,   - (1/2), 0, 1/2,
       0, 0, - (1/2),   0, 1/2, - (1/2),   0, 1/2, 1/2,   0, 0, 1/2,
       - (1/2), 1/2, - (1/2),   0, 1/2, - (1/2),   0, 1/2, 1/2,   - (1/2), 1/2, 1/2 ]"

definition stairUvs :: "rat list" where
  "stairUvs =
     [ 0, 1,  1, 1,  1, 1/2,  0, 1/2,
       1, 1,  0, 1,  0, 1/2,  1, 1/2,
       0, 1,  0, 1/2,  1, 1/2,  1, 1,
       1, 1,  1, 1/2,  0, 1/2,  0, 1,
       0, 0,  1, 0,  1, 1,  0, 1,
       0, 0,  1, 0,  1, 1,  0, 1,
       0, 1/2,  1/2, 1/2,  1/2, 0,  0, 0,
       1/2, 1/2,  0, 1/2,  0, 0,  1/2, 0,
       0, 1/2,  0, 0,  1, 0,  1, 1/2,
       1/2, 1/2,  1/2, 0,  0, 0,  0, 1/2,
       0, 0,  1/2, 0,  1/2, 1,  0, 1 ]"

definition stairIndices :: "nat list" where
  "stairIndices =
     concat (map (\<lambda>i. [4 * i, 4 * i + 1, 4 * i + 2, 4 * i, 4 * i + 2, 4 * i + 3])
               [0 ..< length stairVertices div 12])"

text \<open>
  \<^verbatim>\<open>getStairGeometry\<close>: the parameter names the cache entry and nothing
  else.
\<close>

definition getStairGeometry :: "string \<Rightarrow> geometryCache \<Rightarrow> geometry \<times> geometryCache" where
  "getStairGeometry facing cache =
     (let cacheKey = ''stair_'' @ facing
      in case cache cacheKey of
           Some g \<Rightarrow> (g, cache)
         | None \<Rightarrow>
             (let g = Buffer stairVertices stairUvs stairIndices
              in (g, cache(cacheKey \<mapsto> g))))"

text \<open>
  The calls that touch \<^verbatim>\<open>stairGeometryCache\<close>: a lookup through
  \<^verbatim>\<open>getStairGeometry\<close>, or \<^verbatim>\<open>clearStairGeometryCache\<close>.
\<close>

datatype stairCacheCall = GetStair string | ClearStairs

fun stairCacheStep :: "geometryCache \<Rightarrow> stairCacheCall \<Rightarrow> geometryCache" where
  "stairCacheStep cache (GetStair facing) = snd (getStairGeometry facing cache)"
| "stairCacheStep cache ClearStairs = Map.empty"

definition stairCacheAfter :: "stairCacheCall list \<Rightarrow> geometryCache" where
  "stairCacheAfter calls = foldl stairCacheStep Map.empty calls"

section \<open>The texture manager\<close>

record textures =
  tx_texture :: "texture option"
  tx_top :: "texture option"
  tx_bottom :: "texture option"
  tx_side :: "texture option"
  tx_end :: "texture option"
  tx_lower :: "texture option"
  tx_upper :: "texture option"

definition noTextures :: textures where
  "noTextures = \<lparr> tx_texture = None, tx_top = None, tx_bottom = None, tx_side = None,
                   tx_end = None, tx_lower = None, tx_upper = None \<rparr>"

text \<open>Awaiting \<^verbatim>\<open>loadTexture\<close> on paths one after the other: the first
  rejection ends the sequence.\<close>

fun loadSeq :: "env \<Rightarrow> string list \<Rightarrow> exn + texture list" where
  "loadSeq ev [] = Inr []"
| "loadSeq ev (p # ps) =
     (case loadTexture ev p of
        Inl e \<Rightarrow> Inl e
      | Inr t \<Rightarrow> (case loadSeq ev ps of Inl e \<Rightarrow> Inl e | Inr ts \<Rightarrow> Inr (t # ts)))"

definition fallbackTextures :: textures where
  "fallbackTextures = noTextures\<lparr> tx_texture := Some Checkerboard \<rparr>"

definition singleTexture :: "exn + texture list \<Rightarrow> textures" where
  "singleTexture r =
     (case r of Inr [t] \<Rightarrow> noTextures\<lparr> tx_texture := Some t \<rparr> | _ \<Rightarrow> fallbackTextures)"

definition tbsTextures :: "exn + texture list \<Rightarrow> textures option" where
  "tbsTextures r =
     (case r of
        Inr [t, b, s] \<Rightarrow> Some (noTextures\<lparr> tx_top := Some t, tx_bottom := Some b, tx_side := Some s \<rparr>)
      | _ \<Rightarrow> None)"

text \<open>
  \<^verbatim>\<open>loadBlockTextures\<close>: the \<^verbatim>\<open>switch\<close> on the category inside
  \<^verbatim>\<open>try\<close>; any rejection is caught and answered with the checkerboard, so
  the function itself never rejects. \<^verbatim>\<open>getTexturePath(blockType)\<close> has the
  default face \<^verbatim>\<open>'side'\<close>.
\<close>

definition loadBlockTextures :: "env \<Rightarrow> string \<Rightarrow> string \<Rightarrow> textures" where
  "loadBlockTextures ev blockType category =
     (let path = e_texturePath ev blockType in
      if category = ''tbs'' then
        (case tbsTextures (loadSeq ev [path ''top'', path ''bottom'', path ''side'']) of
           Some tx \<Rightarrow> tx | None \<Rightarrow> fallbackTextures)
      else if category = ''directional'' then
        (case loadSeq ev [path ''end'', path ''side''] of
           Inr [e, s] \<Rightarrow> noTextures\<lparr> tx_end := Some e, tx_side := Some s \<rparr>
         | _ \<Rightarrow> fallbackTextures)
      else if category = ''door'' then
        (case loadSeq ev [path ''lower'', path ''upper''] of
           Inr [l, u] \<Rightarrow> noTextures\<lparr> tx_lower := Some l, tx_upper := Some u \<rparr>
         | _ \<Rightarrow> fallbackTextures)
      else singleTexture (loadSeq ev [path ''side'']))"

definition stripWaxedPrefix :: "string \<Rightarrow> string" where
  "stripWaxedPrefix blockType =
     (if startsWith blockType ''waxed_'' then drop 6 blockType else blockType)"

text \<open>\<^verbatim>\<open>s.replace(pat, rep)\<close> with a string pattern: the first occurrence.\<close>

fun replaceFirst :: "string \<Rightarrow> string \<Rightarrow> string \<Rightarrow> string" where
  "replaceFirst [] pat rep = (if pat = [] then rep else [])"
| "replaceFirst (c # cs) pat rep =
     (if startsWith (c # cs) pat then rep @ drop (length pat) (c # cs)
      else c # replaceFirst cs pat rep)"

section \<open>The slab factory\<close>

definition slabSpecialCases :: "(string \<times> string) list" where
  "slabSpecialCases =
     [ (''stone_slab'', ''stone''), (''sandstone_slab'', ''sandstone''),
       (''cobblestone_slab'', ''cobblestone''), (''brick_slab'', ''brick''),
       (''stone_brick_slab'', ''stone_bricks''), (''nether_brick_slab'', ''nether_bricks''),
       (''quartz_slab'', ''quartz_block''), (''red_sandstone_slab'', ''red_sandstone''),
       (''purpur_slab'', ''purpur_block''), (''prismarine_slab'', ''prismarine''),
       (''prismarine_brick_slab'', ''prismarine_bricks''),
       (''dark_prismarine_slab'', ''dark_prismarine''),
       (''polished_granite_slab'', ''polished_granite''),
       (''smooth_red_sandstone_slab'', ''smooth_red_sandstone''),
       (''mossy_stone_brick_slab'', ''mossy_stone_bricks''),
       (''polished_diorite_slab'', ''polished_diorite''),
       (''mossy_cobblestone_slab'', ''mossy_cobblestone''),
       (''end_stone_brick_slab'', ''end_stone_bricks''),
       (''smooth_sandstone_slab'', ''smooth_sandstone''),
       (''smooth_quartz_slab'', ''smooth_quartz''), (''granite_slab'', ''granite''),
       (''andesite_slab'', ''andesite''), (''red_nether_brick_slab'', ''red_nether_bricks''),
       (''polished_andesite_slab'', ''polished_andesite''), (''diorite_slab'', ''diorite''),
       (''crimson_slab'', ''crimson_planks''), (''warped_slab'', ''warped_planks''),
       (''blackstone_slab'', ''blackstone''),
       (''polished_blackstone_slab'', ''polished_blackstone''),
       (''polished_blackstone_brick_slab'', ''polished_blackstone_bricks''),
       (''cut_copper_slab'', ''cut_copper''),
       (''exposed_cut_copper_slab'', ''exposed_cut_copper''),
       (''weathered_cut_copper_slab'', ''weathered_cut_copper''),
       (''oxidized_cut_copper_slab'', ''oxidized_cut_copper''),
       (''cobbled_deepslate_slab'', ''cobbled_deepslate''),
       (''polished_deepslate_slab'', ''polished_deepslate''),
       (''deepslate_brick_slab'', ''deepslate_bricks''),
       (''deepslate_tile_slab'', ''deepslate_tiles''),
       (''mangrove_slab'', ''mangrove_planks''), (''mud_brick_slab'', ''mud_bricks''),
       (''bamboo_slab'', ''bamboo_planks''), (''bamboo_mosaic_slab'', ''bamboo_mosaic''),
       (''cherry_slab'', ''cherry_planks'') ]"

definition slabBaseBlockType :: "string \<Rightarrow> string" where
  "slabBaseBlockType slabType0 =
     (let slabType = stripWaxedPrefix slabType0 in
      if endsWith slabType ''_slab'' then replaceFirst slabType ''_slab'' ''''
      else (case map_of slabSpecialCases slabType of
              Some base \<Rightarrow> base
            | None \<Rightarrow>
                if str_includes slabType ''_slab''
                   \<and> (str_includes slabType ''oak'' \<or> str_includes slabType ''spruce''
                        \<or> str_includes slabType ''birch'' \<or> str_includes slabType ''jungle''
                        \<or> str_includes slabType ''acacia'' \<or> str_includes slabType ''dark_oak'')
                then replaceFirst slabType ''_slab'' ''_planks''
                else slabType))"

definition present :: "string option \<Rightarrow> bool" where
  "present v = (case v of None \<Rightarrow> False | Some s \<Rightarrow> s \<noteq> [])"

text \<open>
  One \<^verbatim>\<open>if (SPECIAL_TEXTURE_MAPPINGS[name])\<close> block of
  \<^verbatim>\<open>loadSlabTextures\<close>: \<open>None\<close> when control falls through to the next
  block, otherwise the awaited loads, which may reject.
\<close>

definition specialSlabTextures :: "env \<Rightarrow> string \<Rightarrow> (exn + textures) option" where
  "specialSlabTextures ev name =
     (case e_special ev name of
        None \<Rightarrow> None
      | Some mapping \<Rightarrow>
          if present (tm_top mapping) \<and> present (tm_bottom mapping) \<and> present (tm_side mapping) then
            Some (case loadSeq ev [''textures/blocks/'' @ the (tm_top mapping),
                                   ''textures/blocks/'' @ the (tm_bottom mapping),
                                   ''textures/blocks/'' @ the (tm_side mapping)] of
                    Inl e \<Rightarrow> Inl e
                  | Inr ts \<Rightarrow> Inr (case tbsTextures (Inr ts) of Some tx \<Rightarrow> tx
                                    | None \<Rightarrow> noTextures))
          else if present (tm_default mapping) then
            Some (case loadTexture ev (''textures/blocks/'' @ the (tm_default mapping)) of
                    Inl e \<Rightarrow> Inl e
                  | Inr t \<Rightarrow> Inr (noTextures\<lparr> tx_texture := Some t \<rparr>))
          else None)"

definition loadSlabTextures :: "env \<Rightarrow> string \<Rightarrow> string \<Rightarrow> textures" where
  "loadSlabTextures ev slabType baseBlockType =
     (case specialSlabTextures ev slabType of
        Some (Inr tx) \<Rightarrow> tx
      | Some (Inl e) \<Rightarrow> fallbackTextures
      | None \<Rightarrow>
          (case specialSlabTextures ev baseBlockType of
             Some (Inr tx) \<Rightarrow> tx
           | Some (Inl e) \<Rightarrow> fallbackTextures
           | None \<Rightarrow>
               (case tbsTextures (loadSeq ev [e_texturePath ev slabType ''top'',
                                              e_texturePath ev slabType ''bottom'',
                                              e_texturePath ev slabType ''side'']) of
                  Some tx \<Rightarrow> tx
                | None \<Rightarrow>
                    (case tbsTextures (loadSeq ev [e_texturePath ev baseBlockType ''top'',
                                                   e_texturePath ev baseBlockType ''bottom'',
                                                   e_texturePath ev baseBlockType ''side'']) of
                       Some tx \<Rightarrow> tx
                     | None \<Rightarrow>
                         singleTexture (loadSeq ev [e_texturePath ev baseBlockType ''side''])))))"

definition propertiesOf :: "env \<Rightarrow> string \<Rightarrow> props" where
  "propertiesOf ev blockType =
     (case e_properties ev blockType of None \<Rightarrow> noProps | Some p \<Rightarrow> p)"

definition six :: "material \<Rightarrow> material list" where
  "six m = [m, m, m, m, m, m]"

text \<open>
  \<^verbatim>\<open>createSlabBlock\<close>. No awaited step of its \<^verbatim>\<open>try\<close> block rejects
  (\<^verbatim>\<open>loadSlabTextures\<close> catches its own errors), so its \<^verbatim>\<open>catch\<close>
  branch, which builds the same geometry with the fallback material, is not
  entered.
\<close>

definition createSlabBlock ::
    "env \<Rightarrow> string \<Rightarrow> bool \<Rightarrow> geometryCache \<Rightarrow> (exn + node) \<times> geometryCache" where
  "createSlabBlock ev blockType isUpperSlab cache =
     (let baseBlockType = slabBaseBlockType blockType;
          properties = (case e_properties ev blockType of
                          Some p \<Rightarrow> p
                        | None \<Rightarrow> propertiesOf ev baseBlockType);
          tx = loadSlabTextures ev blockType baseBlockType;
          materials =
            (if tx_top tx \<noteq> None \<and> tx_bottom tx \<noteq> None \<and> tx_side tx \<noteq> None
             then createMultiFaceMaterial (tx_top tx) (tx_bottom tx) (tx_side tx)
                    properties blockType
             else six (createUniformMaterial (tx_texture tx) properties))
      in case getSlabGeometry isUpperSlab cache of
           (geometry, cache') \<Rightarrow>
             (Inr (Mesh blockType geometry materials origin origin), cache'))"

section \<open>The stair factory\<close>

definition facingYaw :: "string \<Rightarrow> angle" where
  "facingYaw facing =
     (if facing = ''north'' then 1
      else if facing = ''south'' then 0
      else if facing = ''west'' then 3 / 2
      else if facing = ''east'' then 1 / 2
      else 0)"

text \<open>
  \<^verbatim>\<open>createStairBlock\<close>. The geometry is requested for \<^verbatim>\<open>'east'\<close>
  whatever the facing; the facing turns the template mesh. The \<^verbatim>\<open>catch\<close>
  branch calls \<^verbatim>\<open>createFallbackMesh\<close>, a name \<^verbatim>\<open>stairFactory.js\<close>
  neither defines nor imports: the call throws a \<^verbatim>\<open>ReferenceError\<close>.
\<close>

definition createStairBlock ::
    "env \<Rightarrow> string \<Rightarrow> options \<Rightarrow> geometryCache \<Rightarrow> (exn + node) \<times> geometryCache" where
  "createStairBlock ev blockType opts cache =
     (let facing = orDefault (o_facing opts) ''east'';
          half = orDefault (o_half opts) ''bottom''
      in case getStairGeometry ''east'' cache of
           (geometry, cache') \<Rightarrow>
             (case loadTexture ev ''textures/blocks/planks_spruce.png'' of
                Inr tex \<Rightarrow>
                  (Inr (Mesh blockType geometry
                          [standardMaterial\<lparr> mat_map := Some tex, mat_doubleSided := True \<rparr>]
                          origin
                          (if half = ''top'' then 1 else 0, facingYaw facing, 0)),
                   cache')
              | Inl e \<Rightarrow> (Inl (ReferenceError ''createFallbackMesh''), cache')))"

section \<open>The block factory\<close>

definition isChainBlock :: "string \<Rightarrow> bool" where
  "isChainBlock blockType = (blockType = ''chain'' \<or> endsWith blockType ''_chain'')"

definition isDoorBlock :: "string \<Rightarrow> bool" where
  "isDoorBlock blockType =
     (blockType = ''door''
      \<or> (endsWith blockType ''_door'' \<and> \<not> str_includes blockType ''trapdoor''))"

definition isGrindstoneBlock :: "string \<Rightarrow> bool" where
  "isGrindstoneBlock blockType = (blockType = ''grindstone'')"

definition isSlabBlock :: "string \<Rightarrow> bool" where
  "isSlabBlock blockType = (str_includes blockType ''_slab'' \<or> blockType = ''slab'')"

definition isStairBlock :: "string \<Rightarrow> bool" where
  "isStairBlock blockType = (str_includes blockType ''_stairs'' \<or> blockType = ''stairs'')"

definition isWallBlock :: "string \<Rightarrow> bool" where
  "isWallBlock blockType = (str_includes blockType ''_wall'' \<or> blockType = ''wall'')"

definition isFenceBlock :: "string \<Rightarrow> bool" where
  "isFenceBlock blockType =
     (str_includes blockType ''_fence'' \<and> \<not> str_includes blockType ''gate'')"

definition isTrapdoorBlock :: "string \<Rightarrow> bool" where
  "isTrapdoorBlock blockType =
     (str_includes blockType ''_trapdoor'' \<or> blockType = ''trapdoor'')"

definition isLanternBlock :: "string \<Rightarrow> bool" where
  "isLanternBlock blockType =
     (str_includes blockType ''lantern'' \<and> blockType \<noteq> ''jack_o_lantern'')"

definition isDoublePlant :: "string \<Rightarrow> bool" where
  "isDoublePlant blockType =
     (str_includes blockType ''double_plant'' \<or> str_includes blockType ''_top''
      \<or> str_includes blockType ''_bottom'')"

definition plantTypes :: "string list" where
  "plantTypes =
     [''plant'', ''flower'', ''sapling'', ''mushroom'', ''wheat'', ''berry'', ''fern'',
      ''dead_bush'', ''seagrass'', ''kelp'', ''bamboo'', ''vine'', ''lily'',
      ''double_plant'', ''rose'', ''dandelion'', ''tulip'', ''allium'', ''orchid'',
      ''poppy'', ''cornflower'', ''wither_rose'']"

definition excludedBlocks :: "string list" where
  "excludedBlocks =
     [''grass_block'', ''grass_path'', ''dirt_path'', ''mycelium'', ''podzol'',
      ''farmland'', ''farmland_moist'', ''mushroom_stem'', ''brown_mushroom_block'']"

definition isPlantBlock :: "string \<Rightarrow> bool" where
  "isPlantBlock blockType =
     (if blockType \<in> set excludedBlocks then False
      else if str_includes blockType ''grass'' then
        (blockType = ''grass'' \<or> blockType = ''tallgrass''
         \<or> (startsWith blockType ''grass_'' \<and> \<not> str_includes blockType ''path''))
      else list_ex (\<lambda>t. str_includes blockType t) plantTypes)"

text \<open>\<^verbatim>\<open>createFallbackMesh\<close> of \<^verbatim>\<open>blockFactory.js\<close>.\<close>

definition createFallbackMesh :: "string \<Rightarrow> node" where
  "createFallbackMesh blockType =
     Mesh (''fallback_'' @ blockType) getBlockGeometry [createFallbackMaterial] origin origin"

definition tintedColor :: "props \<Rightarrow> nat" where
  "tintedColor properties = natOr (p_tintColor properties) 0xFFFFFF"

definition plantMaterial :: "env \<Rightarrow> string \<Rightarrow> props \<Rightarrow> material" where
  "plantMaterial ev blockType properties =
     standardMaterial\<lparr> mat_map := tx_texture (loadBlockTextures ev blockType ''uniform''),
       mat_transparent := True, mat_alphaTest := 1 / 2, mat_doubleSided := True,
       mat_color := tintedColor properties \<rparr>"

definition crossedPlanes :: "material \<Rightarrow> node list" where
  "crossedPlanes m =
     [ Mesh [] getPlantGeometry [m] origin (0, 1 / 4, 0),
       Mesh [] getPlantGeometry [m] origin (0, - (1 / 4), 0) ]"

text \<open>
  \<^verbatim>\<open>createPlantBlock\<close> and \<^verbatim>\<open>createDoublePlantBlock\<close>. The argument
  \<open>rnd\<close> is the number the call of \<^verbatim>\<open>Math.random()\<close> returns, so the yaw
  \<^verbatim>\<open>Math.random() * Math.PI * 2\<close> is \<open>rnd * 2\<close> in units of \<open>\<pi>\<close>; a group
  that is not turned keeps the yaw \<open>0\<close>. No awaited step of either
  \<^verbatim>\<open>try\<close> block rejects (\<^verbatim>\<open>loadBlockTextures\<close> catches its own errors).
\<close>

definition createPlantBlock :: "env \<Rightarrow> rat \<Rightarrow> string \<Rightarrow> props \<Rightarrow> exn + node" where
  "createPlantBlock ev rnd blockType properties =
     Inr (Group blockType (crossedPlanes (plantMaterial ev blockType properties))
            (0, - (1 / 2), 0)
            (0, (if \<not> str_includes blockType ''crop'' \<and> \<not> str_includes blockType ''wheat''
                 then rnd * 2 else 0), 0))"

definition createDoublePlantBlock :: "env \<Rightarrow> rat \<Rightarrow> string \<Rightarrow> props \<Rightarrow> exn + node" where
  "createDoublePlantBlock ev rnd blockType properties =
     Inr (Group blockType (crossedPlanes (plantMaterial ev blockType properties))
            (0, - (1 / 2), 0)
            (0, (if \<not> str_includes blockType ''_top'' then rnd * 2 else 0), 0))"

text \<open>The value of \<^verbatim>\<open>connections[name] === 'true'\<close>.\<close>

definition connected :: "(string \<times> jsval) list \<Rightarrow> string \<Rightarrow> bool" where
  "connected conns name = (map_of conns name = Some (JStr ''true''))"

definition directions :: "(string \<times> rat \<times> rat) list" where
  "directions =
     [ (''north'', 0, - (3 / 8)), (''east'', 3 / 8, 0),
       (''south'', 0, 3 / 8), (''west'', - (3 / 8), 0) ]"

definition alongX :: "string \<Rightarrow> bool" where
  "alongX name = (name = ''east'' \<or> name = ''west'')"

definition alongZ :: "string \<Rightarrow> bool" where
  "alongZ name = (name = ''north'' \<or> name = ''south'')"

definition wallSegment :: "material \<Rightarrow> string \<times> rat \<times> rat \<Rightarrow> node list" where
  "wallSegment m dir =
     (case dir of (name, dx, dz) \<Rightarrow>
        [ Mesh [] (Box (newBox (if alongX name then 1 / 2 else 3 / 10) (3 / 5)
                              (if alongZ name then 1 / 2 else 3 / 10)))
            [m] (dx, 1 / 20, dz) origin ])"

definition fenceRails :: "material \<Rightarrow> string \<times> rat \<times> rat \<Rightarrow> node list" where
  "fenceRails m dir =
     (case dir of (name, dx, dz) \<Rightarrow>
        [ Mesh [] (Box (newBox (if alongX name then 1 / 2 else 1 / 8) (1 / 8)
                              (if alongZ name then 1 / 2 else 1 / 8)))
            [m] (dx, 1 / 4, dz) origin,
          Mesh [] (Box (newBox (if alongX name then 1 / 2 else 1 / 8) (1 / 8)
                              (if alongZ name then 1 / 2 else 1 / 8)))
            [m] (dx, - (1 / 8), dz) origin ])"

text \<open>The parts added by \<^verbatim>\<open>for (const dir of directions)\<close>.\<close>

definition arms ::
    "(string \<times> rat \<times> rat \<Rightarrow> node list) \<Rightarrow> (string \<times> jsval) list \<Rightarrow> node list" where
  "arms part conns =
     concat (map (\<lambda>dir. if connected conns (fst dir) then part dir else []) directions)"

definition wallMaterial :: "env \<Rightarrow> string \<Rightarrow> material" where
  "wallMaterial ev blockType =
     createUniformMaterial (tx_texture (loadBlockTextures ev blockType ''uniform''))
       (propertiesOf ev blockType)"

definition createWallBlock :: "env \<Rightarrow> string \<Rightarrow> (string \<times> jsval) list \<Rightarrow> exn + node" where
  "createWallBlock ev blockType conns =
     (let m = wallMaterial ev blockType
      in Inr (Group blockType
                (Mesh [] (Box (newBox (1 / 2) 1 (1 / 2))) [m] origin origin
                 # arms (wallSegment m) conns)
                origin origin))"

definition createFenceBlock :: "env \<Rightarrow> string \<Rightarrow> (string \<times> jsval) list \<Rightarrow> exn + node" where
  "createFenceBlock ev blockType conns =
     (let m = wallMaterial ev blockType
      in Inr (Group blockType
                (Mesh [] (Box (newBox (1 / 4) 1 (1 / 4))) [m] origin origin
                 # arms (fenceRails m) conns)
                origin origin))"

definition createTrapdoorBlock :: "env \<Rightarrow> string \<Rightarrow> options \<Rightarrow> exn + node" where
  "createTrapdoorBlock ev blockType opts =
     (let ts = (case o_trapdoorState opts of
                  None \<Rightarrow> \<lparr> ts_open = JUndefined, ts_half = None, ts_facing = None \<rparr>
                | Some s \<Rightarrow> s);
          isOpen = (ts_open ts = JBool True \<or> ts_open ts = JStr ''true'');
          half = orDefault (ts_half ts) ''bottom'';
          facing = orDefault (ts_facing ts) ''north'';
          faceMat = createUniformMaterial
                      (tx_texture (loadBlockTextures ev blockType ''trapdoor'')) noProps;
          sideMat = standardMaterial\<lparr> mat_color := 0x6D4C33 \<rparr>;
          materials = [sideMat, sideMat, faceMat, faceMat, sideMat, sideMat];
          placing =
            (if isOpen then
               (if facing = ''north'' then ((0, 0, 1 / 2), (1 / 2, 0, 0))
                else if facing = ''south'' then ((0, 0, - (1 / 2)), (- (1 / 2), 0, 0))
                else if facing = ''east'' then ((- (1 / 2), 0, 0), (0, 0, - (1 / 2)))
                else if facing = ''west'' then ((1 / 2, 0, 0), (0, 0, 1 / 2))
                else (origin, origin))
             else
               ((0, (if half = ''top'' then 7 / 16 else - (7 / 16)), 0),
                (0, (if facing = ''north'' then 1
                     else if facing = ''south'' then 0
                     else if facing = ''east'' then 1 / 2
                     else if facing = ''west'' then - (1 / 2)
                     else 0), 0)))
      in Inr (Group blockType
                [Mesh [] (Box (newBox 1 (3 / 16) 1)) materials (fst placing) (snd placing)]
                origin origin))"

definition chainPlanes :: "rat \<Rightarrow> rat \<Rightarrow> rat list \<Rightarrow> geometry" where
  "chainPlanes w h uvs =
     Buffer [ - w, h, w,  - w, - h, w,  w, h, - w,  w, - h, - w,
              w, h, w,  w, - h, w,  - w, h, - w,  - w, - h, - w ]
            uvs
            [0, 1, 2, 2, 1, 3, 4, 5, 6, 6, 5, 7]"

text \<open>
  \<^verbatim>\<open>createLanternBlock\<close>. The scale of the interior box and the texture
  coordinates written on the side and bottom planes are left out.
\<close>

definition createLanternBlock :: "env \<Rightarrow> string \<Rightarrow> bool \<Rightarrow> exn + node" where
  "createLanternBlock ev blockType hanging =
     (case loadTexture ev ''textures/blocks/lantern.png'' of
        Inl e \<Rightarrow> Inr (createFallbackMesh blockType)
      | Inr tex \<Rightarrow>
          (let lanternWidth = 6 / 16; lanternHeight = 9 / 16; bottomWidth = 6 / 16;
               chainWidth = 3 / 16; chainHeight = 8 / 16;
               interiorMaterial = standardMaterial\<lparr> mat_color := 0x2A2A2A \<rparr>;
               sideMaterial = standardMaterial\<lparr> mat_map := Some tex,
                                mat_transparent := True, mat_alphaTest := 1 / 2 \<rparr>;
               chainMaterial = sideMaterial\<lparr> mat_doubleSided := True \<rparr>;
               side = Plane lanternWidth lanternHeight;
               bottom = Plane bottomWidth bottomWidth
           in Inr (Group blockType
                ([ Mesh [] (Box (newBox lanternWidth lanternHeight lanternWidth))
                     [interiorMaterial] origin origin,
                   Mesh [] side [sideMaterial] (0, 0, bottomWidth / 2 + 1 / 1000) origin,
                   Mesh [] side [sideMaterial] (0, 0, - (bottomWidth / 2) - 1 / 1000) (0, 1, 0),
                   Mesh [] side [sideMaterial] (- (bottomWidth / 2) - 1 / 1000, 0, 0) (0, - (1 / 2), 0),
                   Mesh [] side [sideMaterial] (bottomWidth / 2 + 1 / 1000, 0, 0) (0, 1 / 2, 0),
                   Mesh [] bottom [sideMaterial] (0, - (lanternHeight / 2), 0) (- (1 / 2), 0, 0),
                   Mesh [] bottom [sideMaterial]
                     (0, lanternHeight / 2 - bottomWidth / 8, 0) (1 / 2, 0, 0) ]
                 @ (if hanging then
                      [ Mesh [] (chainPlanes (chainWidth / 2) (chainHeight / 2)
                                   [ 5/16, 1/3,  8/16, 1/3,  5/16, 9/16 * (1/3),  8/16, 9/16 * (1/3),
                                     5/16, 1/3,  8/16, 1/3,  5/16, 9/16 * (1/3),  8/16, 9/16 * (1/3) ])
                          [chainMaterial] (0, lanternHeight / 2 + chainHeight / 2, 0) origin ]
                    else [])
                 @ [ PointLight 0xFF9900 5 15, PointLight 0xFFD700 10 40 ])
                origin origin)))"

definition invisibleMaterial :: material where
  "invisibleMaterial =
     standardMaterial\<lparr> mat_transparent := True, mat_opacity := 0, mat_visible := False \<rparr>"

definition createDoorBlock :: "string \<Rightarrow> exn + node" where
  "createDoorBlock blockType =
     Inr (Mesh blockType (Box ((newBox (3 / 16) (3 / 2) 1)\<lparr> box_rotateY := 1 / 2 \<rparr>))
            [invisibleMaterial] (0, - (1 / 4), 0) origin)"

definition createTorchBlock :: "string \<Rightarrow> exn + node" where
  "createTorchBlock blockType =
     Inr (Mesh blockType (Box (newBox (1 / 10) (3 / 5) (1 / 10)))
            [invisibleMaterial] (0, 3 / 10, 0) origin)"

definition createChainBlock :: "env \<Rightarrow> string \<Rightarrow> exn + node" where
  "createChainBlock ev blockType =
     (case loadTexture ev ''textures/blocks/chain1.png'' of
        Inl e \<Rightarrow> Inr (createFallbackMesh blockType)
      | Inr tex \<Rightarrow>
          Inr (Mesh blockType
                 (chainPlanes (1 / 16) (1 / 2)
                    [ 3/16, 1,  3/16, 0,  0, 1,  0, 0,  3/16, 1,  3/16, 0,  0, 1,  0, 0 ])
                 [standardMaterial\<lparr> mat_map := Some tex, mat_transparent := True,
                                    mat_alphaTest := 1 / 2, mat_doubleSided := True \<rparr>]
                 origin origin))"

section \<open>The grindstone factory\<close>

text \<open>The factory's own \<^verbatim>\<open>createFallbackMesh\<close>: a solid magenta unit cube.\<close>

definition grindstoneFallbackMesh :: "string \<Rightarrow> node" where
  "grindstoneFallbackMesh blockType =
     Mesh (''fallback_'' @ blockType) (Box (newBox 1 1 1))
       [standardMaterial\<lparr> mat_color := 0xFF00FF \<rparr>] origin origin"

definition createGrindstoneBlock :: "env \<Rightarrow> string \<Rightarrow> options \<Rightarrow> exn + node" where
  "createGrindstoneBlock ev blockType opts =
     (let facing = orDefault (o_facing opts) ''north''
      in case loadSeq ev [''textures/blocks/grindstone_round.tga'',
                          ''textures/blocks/grindstone_side.tga'',
                          ''textures/blocks/grindstone_pivot.tga''] of
           Inr [roundTexture, sideTexture, pivotTexture] \<Rightarrow>
             (let roundMaterial = standardMaterial\<lparr> mat_map := Some roundTexture \<rparr>;
                  sideMaterial = standardMaterial\<lparr> mat_map := Some sideTexture \<rparr>
              in Inr (Group blockType
                   [ Mesh [] (Box (newBox (1 / 2) (5 / 16) 1)) [sideMaterial]
                       (0, 11 / 32, 0) origin,
                     Mesh [] (Box (newBox (1 / 4) (3 / 8) (1 / 2)))
                       [sideMaterial, sideMaterial, roundMaterial, roundMaterial,
                        sideMaterial, sideMaterial]
                       (0, - (5 / 16), 0) origin,
                     Mesh [] (Box (newBox (1 / 8) 1 (1 / 8))) [sideMaterial]
                       (0, 0, - (5 / 16)) origin,
                     Mesh [] (Box (newBox (1 / 8) 1 (1 / 8))) [sideMaterial]
                       (0, 0, 5 / 16) origin ]
                   origin (0, facingYaw facing, 0)))
         | _ \<Rightarrow> Inr (grindstoneFallbackMesh blockType))"

section \<open>\<^verbatim>\<open>createBlock\<close>\<close>

record caches =
  c_slab :: geometryCache
  c_stair :: geometryCache

definition emptyCaches :: caches where
  "emptyCaches = \<lparr> c_slab = Map.empty, c_stair = Map.empty \<rparr>"

text \<open>The mesh built by the \<^verbatim>\<open>catch\<close> branch of \<^verbatim>\<open>createBlock\<close>.\<close>

definition createBlockFallback :: "string \<Rightarrow> node" where
  "createBlockFallback blockType =
     Mesh (''fallback_'' @ blockType) getBlockGeometry (six createFallbackMaterial) origin origin"

definition coloredTexturePath :: "string \<Rightarrow> string \<Rightarrow> string" where
  "coloredTexturePath blockType color =
     (if str_includes blockType ''concrete_powder''
      then ''textures/blocks/concrete_powder_'' @ color @ ''.png''
      else if str_includes blockType ''concrete''
      then ''textures/blocks/concrete_'' @ color @ ''.png''
      else ''textures/blocks/wool_colored_'' @ color @ ''.png'')"

definition blockCategory :: "string \<Rightarrow> props \<Rightarrow> string" where
  "blockCategory blockType properties =
     (let c0 = orDefault (p_category properties) ''uniform'';
          c1 = (if str_includes blockType ''leaves'' \<or> endsWith blockType ''_leaves''
                then ''leaves'' else c0)
      in if str_includes blockType ''_log'' \<or> endsWith blockType ''_log''
         then ''directional'' else c1)"

definition blockMaterials :: "string \<Rightarrow> string \<Rightarrow> textures \<Rightarrow> props \<Rightarrow> material list" where
  "blockMaterials category blockType tx properties =
     (if category = ''uniform'' then six (createUniformMaterial (tx_texture tx) properties)
      else if category = ''tbs'' then
        createMultiFaceMaterial (tx_top tx) (tx_bottom tx) (tx_side tx) properties blockType
      else if category = ''directional'' then
        createDirectionalMaterial (tx_side tx) (tx_end tx) properties
      else if category = ''leaves'' then six (createLeafMaterial (tx_texture tx) properties)
      else six (createUniformMaterial (tx_texture tx) properties))"

text \<open>
  \<^verbatim>\<open>createBlock\<close>, an \<^verbatim>\<open>async\<close> function whose body is one
  \<^verbatim>\<open>try\<close>. The specialised builders are returned without
  \<^verbatim>\<open>await\<close>, so what they reject with is the result; the one awaited step
  that can reject is \<^verbatim>\<open>loadTexture\<close> of the colour branch, and the
  \<^verbatim>\<open>catch\<close> answers it with the fallback mesh.
\<close>

definition createBlock ::
    "env \<Rightarrow> rat \<Rightarrow> string \<Rightarrow> options \<Rightarrow> caches \<Rightarrow> (exn + node) \<times> caches" where
  "createBlock ev rnd blockType opts cs =
     (if isChainBlock blockType then (createChainBlock ev blockType, cs)
      else if str_includes blockType ''torch'' then (createTorchBlock blockType, cs)
      else if isDoorBlock blockType then (createDoorBlock blockType, cs)
      else if isGrindstoneBlock blockType then (createGrindstoneBlock ev blockType opts, cs)
      else if str_includes blockType ''concrete'' \<or> str_includes blockType ''wool'' then
        (case loadTexture ev (coloredTexturePath blockType (orDefault (o_color opts) ''white'')) of
           Inl e \<Rightarrow> (Inr (createBlockFallback blockType), cs)
         | Inr tex \<Rightarrow>
             (Inr (Mesh blockType getBlockGeometry
                     [standardMaterial\<lparr> mat_map := Some tex \<rparr>] origin origin), cs))
      else if isSlabBlock blockType then
        (case createSlabBlock ev blockType (boolOr (o_isUpperSlab opts)) (c_slab cs) of
           (r, sc) \<Rightarrow> (r, cs\<lparr> c_slab := sc \<rparr>))
      else if isStairBlock blockType then
        (case createStairBlock ev blockType
                (noOptions\<lparr> o_facing := Some (orDefault (o_facing opts) ''east'') \<rparr>)
                (c_stair cs) of
           (r, sc) \<Rightarrow> (r, cs\<lparr> c_stair := sc \<rparr>))
      else if isWallBlock blockType then
        (createWallBlock ev blockType
           (case o_connections opts of None \<Rightarrow> [] | Some conns \<Rightarrow> conns), cs)
      else if isFenceBlock blockType then
        (createFenceBlock ev blockType
           (case o_connections opts of None \<Rightarrow> [] | Some conns \<Rightarrow> conns), cs)
      else if isTrapdoorBlock blockType then (createTrapdoorBlock ev blockType opts, cs)
      else if isLanternBlock blockType then
        (createLanternBlock ev blockType (boolOr (o_hanging opts)), cs)
      else
        (let properties = propertiesOf ev blockType in
         if isDoublePlant blockType then
           (createDoublePlantBlock ev rnd blockType properties, cs)
         else if isPlantBlock blockType then
           (createPlantBlock ev rnd blockType properties, cs)
         else
           (let category = blockCategory blockType properties;
                tx = loadBlockTextures ev blockType category
            in (Inr (Mesh blockType getBlockGeometry
                       (blockMaterials category blockType tx properties) origin origin),
                cs))))"

text \<open>The cache key of the wall and fence branch of \<^verbatim>\<open>TextureLoader.loadBlock\<close>.\<close>

definition wallFenceCacheKey :: "string \<Rightarrow> (string \<times> jsval) list \<Rightarrow> string" where
  "wallFenceCacheKey blockType conns =
     blockType @ ''_''
       @ (if connectionsKey conns = [] then ''no_connections'' else connectionsKey conns)"

section \<open>Instancing: stair transforms and the draw order\<close>

text \<open>
  Exact cosine and sine at the multiples of \<open>\<pi>/2\<close>, the only angles the stair
  transform uses; the argument is in units of \<open>\<pi>\<close>.
\<close>

definition cosPi :: "angle \<Rightarrow> int" where
  "cosPi a = (let q = \<lfloor>2 * a\<rfloor> mod 4 in if q = 0 then 1 else if q = 2 then - 1 else 0)"

definition sinPi :: "angle \<Rightarrow> int" where
  "sinPi a = (let q = \<lfloor>2 * a\<rfloor> mod 4 in if q = 1 then 1 else if q = 3 then - 1 else 0)"

type_synonym mat3 = "int list list"

definition makeRotationY :: "angle \<Rightarrow> mat3" where
  "makeRotationY a = [[cosPi a, 0, sinPi a], [0, 1, 0], [- sinPi a, 0, cosPi a]]"

definition makeRotationX :: "angle \<Rightarrow> mat3" where
  "makeRotationX a = [[1, 0, 0], [0, cosPi a, - sinPi a], [0, sinPi a, cosPi a]]"

definition multiply :: "mat3 \<Rightarrow> mat3 \<Rightarrow> mat3" where
  "multiply a b =
     map (\<lambda>row. map (\<lambda>col. sum_list (map2 (*) row col)) (transpose b)) a"

text \<open>
  The rotation part of the matrix written for each instance of a stair group:
  the facing, a half turn about the x axis for a top stair, and a final
  quarter turn.
\<close>

definition stairInstanceRotation :: "options \<Rightarrow> mat3" where
  "stairInstanceRotation opts =
     (let facing = orDefault (o_facing opts) ''east'';
          half = orDefault (o_half opts) ''bottom'';
          m0 = makeRotationY (facingYaw facing);
          m1 = (if half = ''top'' then multiply m0 (makeRotationX 1) else m0)
      in multiply m1 (makeRotationY (if half = ''top'' then - (1 / 2) else 1 / 2)))"

record sceneEntry =
  se_mesh :: string
  isTransparent :: bool
  isLeaf :: bool
  isSlab :: bool

text \<open>
  The entry pushed on \<^verbatim>\<open>instancedMeshes\<close> for a template that is a single
  mesh; a group template is added to the scene directly and has no entry.
\<close>

definition instancedEntry :: "string \<Rightarrow> node \<Rightarrow> sceneEntry option" where
  "instancedEntry key tmpl =
     (case tmpl of
        Mesh nm g mats p r \<Rightarrow>
          Some \<lparr> se_mesh = key, isTransparent = list_ex mat_transparent mats,
                 isLeaf = str_includes key ''leaves'',
                 isSlab = str_includes key ''_slab_'' \<rparr>
      | _ \<Rightarrow> None)"

text \<open>The comparator passed to \<^verbatim>\<open>instancedMeshes.sort\<close>.\<close>

definition compareEntries :: "sceneEntry \<Rightarrow> sceneEntry \<Rightarrow> int" where
  "compareEntries a b =
     (if isTransparent a \<and> \<not> isTransparent b then 1
      else if \<not> isTransparent a \<and> isTransparent b then - 1
      else if isLeaf a \<and> \<not> isLeaf b then 1
      else if \<not> isLeaf a \<and> isLeaf b then - 1
      else if isSlab a \<and> \<not> isSlab b then 1
      else if \<not> isSlab a \<and> isSlab b then - 1
      else 0)"

text \<open>
  \<^verbatim>\<open>Array.prototype.sort\<close> with a comparator, as ECMAScript fixes it for a
  consistent comparator: a stable sort. Here by insertion, an element going
  before the first one the comparator puts strictly after it.
\<close>

fun insertBy :: "('a \<Rightarrow> 'a \<Rightarrow> int) \<Rightarrow> 'a \<Rightarrow> 'a list \<Rightarrow> 'a list" where
  "insertBy cmp a [] = [a]"
| "insertBy cmp a (b # bs) =
     (if cmp a b \<le> 0 then a # b # bs else b # insertBy cmp a bs)"

fun sortBy :: "('a \<Rightarrow> 'a \<Rightarrow> int) \<Rightarrow> 'a list \<Rightarrow> 'a list" where
  "sortBy cmp [] = []"
| "sortBy cmp (a # as) = insertBy cmp a (sortBy cmp as)"

definition sortEntries :: "sceneEntry list \<Rightarrow> sceneEntry list" where
  "sortEntries entries = sortBy compareEntries entries"

text \<open>
  The first loop over \<^verbatim>\<open>instanceGroups\<close> asks
  \<^verbatim>\<open>textureLoader.loadBlock(group.type, group.options)\<close> for a template.
  The template cache is written by the promises' callbacks only, which run
  after the loop, so \<^verbatim>\<open>templateCache.has\<close> is false throughout and every
  group issues its request.
\<close>

definition templateRequests :: "instanceGroups \<Rightarrow> (string \<times> options) list" where
  "templateRequests gs = map (\<lambda>(key, g). (g_type g, g_options g)) gs"

section \<open>Two concrete environments\<close>

text \<open>
  An environment in which every image loads and one in which none does, both
  with the default path \<^verbatim>\<open>textures/blocks/<type>.png\<close> and empty tables.
\<close>

definition envAllLoad :: env where
  "envAllLoad =
     \<lparr> e_loads = (\<lambda>path. True),
       e_texturePath = (\<lambda>blockType face. ''textures/blocks/'' @ blockType @ ''.png''),
       e_properties = (\<lambda>blockType. None),
       e_special = (\<lambda>blockType. None) \<rparr>"

definition envNoneLoad :: env where
  "envNoneLoad = envAllLoad\<lparr> e_loads := (\<lambda>path. False) \<rparr>"

text \<open>
  The three flags of an entry read as one number, transparency weighing most
  and the slab flag least: the order the comparator describes.
\<close>

definition drawRank :: "sceneEntry \<Rightarrow> nat" where
  "drawRank e = (if isTransparent e then 4 else 0) + (if isLeaf e then 2 else 0)
                 + (if isSlab e then 1 else 0)"

text \<open>The children of a composite template; a single mesh has none.\<close>

definition partsOf :: "exn + node \<Rightarrow> node list" where
  "partsOf r = (case r of Inr (Group nm kids p rot) \<Rightarrow> kids | _ \<Rightarrow> [])"

text \<open>
  The blocks whose key is computed by the last branch of the grouping loop,
  the one that reads \<^verbatim>\<open>connections\<close> and \<^verbatim>\<open>hanging\<close>.
\<close>

definition keyedByConnections :: "block \<Rightarrow> bool" where
  "keyedByConnections b =
     (\<not> isSlabKeyed b
      \<and> \<not> (str_includes (b_type b) ''concrete'' \<or> str_includes (b_type b) ''wool'')
      \<and> \<not> (str_includes (b_type b) ''_stairs'' \<or> b_type b = ''stairs'')
      \<and> \<not> (str_includes (b_type b) ''_trapdoor'' \<or> b_type b = ''trapdoor''))"

text \<open>Type and position of a record.\<close>

definition recordSummary :: "block \<Rightarrow> string \<times> int \<times> int \<times> int" where
  "recordSummary b = (b_type b, b_x b, b_y b, b_z b)"

text \<open>
  None of the tests that \<^verbatim>\<open>createBlock\<close> makes before it looks for plants
  holds of the type.
\<close>

definition reachesPlantTests :: "string \<Rightarrow> bool" where
  "reachesPlantTests blockType =
     (\<not> isChainBlock blockType \<and> \<not> str_includes blockType ''torch''
      \<and> \<not> isDoorBlock blockType \<and> \<not> isGrindstoneBlock blockType
      \<and> \<not> str_includes blockType ''concrete'' \<and> \<not> str_includes blockType ''wool''
      \<and> \<not> isSlabBlock blockType \<and> \<not> isStairBlock blockType
      \<and> \<not> isWallBlock blockType \<and> \<not> isFenceBlock blockType
      \<and> \<not> isTrapdoorBlock blockType \<and> \<not> isLanternBlock blockType)"

section \<open>Properties of the normalisation step\<close>

lemma toInt32_low_bits: "toInt32 d AND 7 = d mod 8"
proof -
  have "toInt32 d AND 7 = take_bit 3 (toInt32 d)"
    by (simp add: take_bit_eq_mask mask_eq_exp_minus_1)
  also have "\<dots> = toInt32 d mod 8"
    by (simp add: take_bit_eq_mod)
  also have "\<dots> = ((d + 2 ^ 31) mod 2 ^ 32 mod 8 - 2 ^ 31 mod 8) mod 8"
    unfolding toInt32_def by (rule mod_diff_eq [symmetric])
  also have "\<dots> = ((d + 2 ^ 31) mod 8 - 2 ^ 31 mod 8) mod 8"
    by (simp add: mod_mod_cancel)
  also have "\<dots> = (d + 2 ^ 31 - 2 ^ 31) mod 8"
    by (rule mod_diff_eq)
  finally show ?thesis by simp
qed

lemma resolveSlabType_table:
  "resolveSlabType (Some d) = slabTable ! nat (d mod 8)"
proof -
  have r: "0 \<le> d mod 8" "d mod 8 < 8" by simp_all
  then consider "d mod 8 = 0" | "d mod 8 = 1" | "d mod 8 = 2" | "d mod 8 = 3"
    | "d mod 8 = 4" | "d mod 8 = 5" | "d mod 8 = 6" | "d mod 8 = 7"
    by linarith
  then show ?thesis
    by cases (simp_all add: resolveSlabType_def toInt32_low_bits slabTable_def)
qed

lemma processBlock_generic_slab:
  fixes b :: block
  assumes "b_type b = ''slab''" and "m (posKey b) \<noteq> Some None"
  shows "processBlock m b =
           (m, [ b\<lparr> b_type := resolveSlabType (b_data b),
                     b_isUpperSlab := Some (slabIsUpper b),
                     b_originalData := b_data b,
                     b_originalType := Some ''slab'' \<rparr> ])"
proof -
  have "\<not> str_includes ''slab'' ''double_plant''"
    by (simp add: startsWith_def)
  with assms show ?thesis
    by (simp add: processBlock_def)
qed

lemma buildBlockMap_single:
  "buildBlockMap [b] (posKey b) = Some (Some b)"
  by (simp add: buildBlockMap_def)

lemma processBlock_consumed:
  "m (posKey c) = Some None \<Longrightarrow> processBlock m c = (m, [])"
  by (simp add: processBlock_def)

lemma processBlock_double_plant:
  fixes b :: block
  assumes "str_includes (b_type b) ''double_plant''" and "m (posKey b) \<noteq> Some None"
  shows "processBlock m b =
           (m((b_x b, b_y b + 1, b_z b) \<mapsto> None),
            [ b\<lparr> b_type := ''double_plant_'' @ plantTypeOf (b_type b) @ ''_bottom'',
                 b_is_double_plant_bottom := True \<rparr>,
              (plainBlock (''double_plant_'' @ plantTypeOf (b_type b) @ ''_top'')
                 (b_x b) (b_y b + 1) (b_z b))\<lparr> b_is_double_plant_top := True \<rparr> ])"
  using assms by (simp add: processBlock_def Let_def)

lemma processBlock_other:
  fixes c :: block
  assumes "\<not> str_includes (b_type c) ''double_plant''"
  shows "fst (processBlock m c) = m"
  using assms by (simp add: processBlock_def Let_def split: option.splits)

lemma processBlock_marks:
  assumes "fst (processBlock m c) p = Some None" and "m p \<noteq> Some None"
  shows "str_includes (b_type c) ''double_plant'' \<and> p = (b_x c, b_y c + 1, b_z c)"
proof (cases "m (posKey c) = Some None")
  case True
  with assms show ?thesis by (simp add: processBlock_consumed)
next
  case False
  show ?thesis
  proof (cases "str_includes (b_type c) ''double_plant''")
    case True
    from processBlock_double_plant [of c m] True False assms show ?thesis
      by (simp split: if_splits)
  next
    case False
    with assms show ?thesis by (simp add: processBlock_other)
  qed
qed

lemma buildBlockMap_no_marks: "buildBlockMap bs p \<noteq> Some None"
proof -
  have "foldl (\<lambda>m b. m(posKey b \<mapsto> Some b)) m bs p \<noteq> Some None"
    if "m p \<noteq> Some None" for m :: blockMap
    using that by (induction bs arbitrary: m) simp_all
  then show ?thesis by (simp add: buildBlockMap_def)
qed

lemma processBlock_keeps_mark:
  assumes "m p = Some None"
  shows "fst (processBlock m c) p = Some None"
proof (cases "m (posKey c) = Some None")
  case True
  with assms show ?thesis by (simp add: processBlock_consumed)
next
  case False
  show ?thesis
  proof (cases "str_includes (b_type c) ''double_plant''")
    case True
    from processBlock_double_plant [of c m] True False assms show ?thesis
      by simp
  next
    case False
    with assms show ?thesis by (simp add: processBlock_other)
  qed
qed

lemma processLoop_append:
  "processLoop m (xs @ ys) = processLoop m xs @ processLoop (blockMapAfter m xs) ys"
  by (induction xs arbitrary: m) (simp_all split: prod.splits)

lemma blockMapAfter_snoc:
  "blockMapAfter m (xs @ [x]) = fst (processBlock (blockMapAfter m xs) x)"
  by (induction xs arbitrary: m) simp_all

lemma blockMapAfter_marked:
  "blockMapAfter m xs p = Some None \<longleftrightarrow>
     m p = Some None
     \<or> (\<exists>j<length xs. str_includes (b_type (xs ! j)) ''double_plant''
            \<and> (b_x (xs ! j), b_y (xs ! j) + 1, b_z (xs ! j)) = p
            \<and> blockMapAfter m (take j xs) (posKey (xs ! j)) \<noteq> Some None)"
proof (induction xs rule: rev_induct)
  case Nil
  show ?case by simp
next
  case (snoc x xs)
  let ?m = "blockMapAfter m xs"
  let ?P = "\<lambda>ys j. str_includes (b_type (ys ! j)) ''double_plant''
            \<and> (b_x (ys ! j), b_y (ys ! j) + 1, b_z (ys ! j)) = p
            \<and> blockMapAfter m (take j ys) (posKey (ys ! j)) \<noteq> Some None"
  have old: "?P (xs @ [x]) j = ?P xs j" if "j < length xs" for j
    using that by (simp add: nth_append)
  have last: "?P (xs @ [x]) (length xs) \<longleftrightarrow>
                str_includes (b_type x) ''double_plant''
                \<and> (b_x x, b_y x + 1, b_z x) = p \<and> ?m (posKey x) \<noteq> Some None"
    by simp
  have ex: "(\<exists>j<length (xs @ [x]). ?P (xs @ [x]) j) \<longleftrightarrow>
              (\<exists>j<length xs. ?P xs j) \<or> ?P (xs @ [x]) (length xs)"
  proof
    assume "\<exists>j<length (xs @ [x]). ?P (xs @ [x]) j"
    then obtain j where j: "j < length (xs @ [x])" "?P (xs @ [x]) j"
      by blast
    show "(\<exists>j<length xs. ?P xs j) \<or> ?P (xs @ [x]) (length xs)"
    proof (cases "j < length xs")
      case True
      with j(2) old [of j] show ?thesis by blast
    next
      case False
      with j(1) have "j = length xs" by simp
      with j(2) show ?thesis by blast
    qed
  next
    assume "(\<exists>j<length xs. ?P xs j) \<or> ?P (xs @ [x]) (length xs)"
    then show "\<exists>j<length (xs @ [x]). ?P (xs @ [x]) j"
    proof
      assume "\<exists>j<length xs. ?P xs j"
      then obtain j where "j < length xs" "?P xs j" by blast
      with old [of j] have "j < length (xs @ [x])" "?P (xs @ [x]) j"
        by simp_all
      then show ?thesis by blast
    next
      assume "?P (xs @ [x]) (length xs)"
      moreover have "length xs < length (xs @ [x])" by simp
      ultimately show ?thesis by blast
    qed
  qed
  have step: "fst (processBlock ?m x) p = Some None \<longleftrightarrow>
                ?m p = Some None
                \<or> (str_includes (b_type x) ''double_plant''
                    \<and> (b_x x, b_y x + 1, b_z x) = p \<and> ?m (posKey x) \<noteq> Some None)"
  proof
    assume a: "fst (processBlock ?m x) p = Some None"
    show "?m p = Some None
                \<or> (str_includes (b_type x) ''double_plant''
                    \<and> (b_x x, b_y x + 1, b_z x) = p \<and> ?m (posKey x) \<noteq> Some None)"
    proof (cases "?m p = Some None")
      case True
      then show ?thesis by simp
    next
      case False
      from processBlock_marks [OF a False]
      have dp: "str_includes (b_type x) ''double_plant''" "(b_x x, b_y x + 1, b_z x) = p"
        by simp_all
      have "?m (posKey x) \<noteq> Some None"
      proof
        assume "?m (posKey x) = Some None"
        then have "fst (processBlock ?m x) = ?m"
          by (simp add: processBlock_consumed)
        with a False show False by simp
      qed
      with dp show ?thesis by blast
    qed
  next
    assume "?m p = Some None
                \<or> (str_includes (b_type x) ''double_plant''
                    \<and> (b_x x, b_y x + 1, b_z x) = p \<and> ?m (posKey x) \<noteq> Some None)"
    then show "fst (processBlock ?m x) p = Some None"
    proof
      assume "?m p = Some None"
      then show ?thesis by (rule processBlock_keeps_mark)
    next
      assume h: "str_includes (b_type x) ''double_plant''
                    \<and> (b_x x, b_y x + 1, b_z x) = p \<and> ?m (posKey x) \<noteq> Some None"
      with processBlock_double_plant [of x ?m] show ?thesis
        by auto
    qed
  qed
  show ?case
    unfolding blockMapAfter_snoc step ex last snoc.IH by blast
qed

lemma skippedAt_iff:
  assumes "i < length bs"
  shows "skippedAt bs i \<longleftrightarrow>
           (\<exists>j<i. str_includes (b_type (bs ! j)) ''double_plant''
              \<and> (b_x (bs ! j), b_y (bs ! j) + 1, b_z (bs ! j)) = posKey (bs ! i)
              \<and> \<not> skippedAt bs j)"
proof -
  have t: "take j (take i bs) = take j bs" "take i bs ! j = bs ! j" if "j < i" for j
    using that by (simp_all add: min_def)
  have l: "length (take i bs) = i"
    using assms by simp
  have "skippedAt bs i \<longleftrightarrow>
          (\<exists>j<i. str_includes (b_type (take i bs ! j)) ''double_plant''
              \<and> (b_x (take i bs ! j), b_y (take i bs ! j) + 1, b_z (take i bs ! j))
                    = posKey (bs ! i)
              \<and> blockMapAfter (buildBlockMap bs) (take j (take i bs)) (posKey (take i bs ! j))
                    \<noteq> Some None)"
    unfolding skippedAt_def
    using blockMapAfter_marked [of "buildBlockMap bs" "take i bs" "posKey (bs ! i)"]
      buildBlockMap_no_marks [of bs "posKey (bs ! i)"]
    unfolding l by blast
  also have "\<dots> \<longleftrightarrow> (\<exists>j<i. str_includes (b_type (bs ! j)) ''double_plant''
              \<and> (b_x (bs ! j), b_y (bs ! j) + 1, b_z (bs ! j)) = posKey (bs ! i)
              \<and> \<not> skippedAt bs j)"
    using t by (auto simp add: skippedAt_def)
  finally show ?thesis .
qed

lemma processBlocks_at:
  assumes "i < length bs"
  shows "processBlocks bs =
           processLoop (buildBlockMap bs) (take i bs)
             @ snd (processBlock (blockMapAfter (buildBlockMap bs) (take i bs)) (bs ! i))
             @ processLoop (blockMapAfter (buildBlockMap bs) (take (Suc i) bs)) (drop (Suc i) bs)"
proof -
  have "bs = take i bs @ bs ! i # drop (Suc i) bs"
    using assms by (simp add: id_take_nth_drop [symmetric])
  then have "processBlocks bs =
               processLoop (buildBlockMap bs) (take i bs @ bs ! i # drop (Suc i) bs)"
    by (simp add: processBlocks_def)
  also have "\<dots> = processLoop (buildBlockMap bs) (take i bs)
             @ snd (processBlock (blockMapAfter (buildBlockMap bs) (take i bs)) (bs ! i))
             @ processLoop (fst (processBlock (blockMapAfter (buildBlockMap bs) (take i bs)) (bs ! i)))
                  (drop (Suc i) bs)"
    by (simp add: processLoop_append split: prod.splits)
  also have "fst (processBlock (blockMapAfter (buildBlockMap bs) (take i bs)) (bs ! i))
               = blockMapAfter (buildBlockMap bs) (take (Suc i) bs)"
    using assms by (simp add: take_Suc_conv_app_nth blockMapAfter_snoc)
  finally show ?thesis .
qed

text \<open>
  Claim C1 does not hold as stated. A record of type \<^verbatim>\<open>slab\<close> directly
  above a double plant that comes before it in the list finds its position set
  to \<^verbatim>\<open>null\<close> and is skipped by the first line of the loop: the snapshot
  of a double fern at \<open>(1, 0, 3)\<close> and \<^verbatim>\<open>{type:'slab', data:5}\<close> at
  \<open>(1, 1, 3)\<close> gives the two parts of the fern and no slab.
\<close>

theorem C1_slab_above_double_plant_counterexample:
  "b_type ((plainBlock ''slab'' 1 1 3)\<lparr>b_data := Some 5\<rparr>) = ''slab''
   \<and> map recordSummary
         (processBlocks [plainBlock ''double_plant_fern'' 1 0 3,
                         (plainBlock ''slab'' 1 1 3)\<lparr>b_data := Some 5\<rparr>])
       = [(''double_plant_fern_bottom'', 1, 0, 3), (''double_plant_fern_top'', 1, 1, 3)]"
  by (simp add: processBlocks_def buildBlockMap_def processBlock_def posKey_def plainBlock_def
        plantTypeOf_def recordSummary_def startsWith_def Let_def)

text \<open>
  Claim C1 as amended. A record of type exactly \<^verbatim>\<open>slab\<close> that the loop
  reaches with its position not set to \<^verbatim>\<open>null\<close> is pushed once, at its own
  position, with its type taken from the fixed 8-entry table at the low three
  bits of \<^verbatim>\<open>data\<close>, and with \<^verbatim>\<open>stone_slab\<close> when \<^verbatim>\<open>data\<close> is
  missing; one that finds its position set to \<^verbatim>\<open>null\<close> pushes nothing; the
  position map is left as it was either way. In a run of
  \<^verbatim>\<open>processBlocks\<close> the record at index \<open>i\<close> is skipped exactly when an
  earlier record of the list is a double plant directly below it that was not
  skipped itself; the output of the run is the output for the records before
  it, then the one resolved record or nothing, then the output for the records
  after it. On a snapshot of one such record the run returns that one resolved
  record: \<^verbatim>\<open>data: 5\<close> gives \<^verbatim>\<open>stone_brick_slab\<close>, \<^verbatim>\<open>data: 0\<close> and a
  missing \<^verbatim>\<open>data\<close> give \<^verbatim>\<open>stone_slab\<close>.
\<close>

theorem C1_generic_slab_resolution:
  fixes b :: block
  assumes "b_type b = ''slab''"
  shows "(m (posKey b) \<noteq> Some None \<longrightarrow>
           (\<exists>r. processBlock m b = (m, [r])
              \<and> b_type r = (case b_data b of
                               None \<Rightarrow> ''stone_slab''
                             | Some d \<Rightarrow> slabTable ! nat (d AND 7))
              \<and> (b_x r, b_y r, b_z r) = (b_x b, b_y b, b_z b)))
         \<and> (m (posKey b) = Some None \<longrightarrow> processBlock m b = (m, []))
         \<and> (i < length bs \<and> bs ! i = b \<longrightarrow>
              (skippedAt bs i \<longleftrightarrow>
                 (\<exists>j<i. str_includes (b_type (bs ! j)) ''double_plant''
                    \<and> (b_x (bs ! j), b_y (bs ! j) + 1, b_z (bs ! j)) = posKey b
                    \<and> \<not> skippedAt bs j))
              \<and> (skippedAt bs i \<longrightarrow>
                   processBlocks bs =
                     processLoop (buildBlockMap bs) (take i bs)
                       @ processLoop (blockMapAfter (buildBlockMap bs) (take i bs))
                           (drop (Suc i) bs))
              \<and> (\<not> skippedAt bs i \<longrightarrow>
                   (\<exists>r. processBlocks bs =
                          processLoop (buildBlockMap bs) (take i bs) @ [r]
                            @ processLoop (blockMapAfter (buildBlockMap bs) (take i bs))
                                (drop (Suc i) bs)
                      \<and> b_type r = (case b_data b of
                                       None \<Rightarrow> ''stone_slab''
                                     | Some d \<Rightarrow> slabTable ! nat (d AND 7))
                      \<and> (b_x r, b_y r, b_z r) = (b_x b, b_y b, b_z b))))
         \<and> map b_type (processBlocks [b]) =
             [case b_data b of None \<Rightarrow> ''stone_slab''
                             | Some d \<Rightarrow> slabTable ! nat (d AND 7)]
         \<and> map b_type (processBlocks [b\<lparr>b_data := Some 5\<rparr>]) = [''stone_brick_slab'']
         \<and> map b_type (processBlocks [b\<lparr>b_data := Some 0\<rparr>]) = [''stone_slab'']
         \<and> map b_type (processBlocks [b\<lparr>b_data := None\<rparr>]) = [''stone_slab'']"
proof -
  let ?resolved = "b\<lparr> b_type := resolveSlabType (b_data b),
                      b_isUpperSlab := Some (slabIsUpper b),
                      b_originalData := b_data b,
                      b_originalType := Some ''slab'' \<rparr>"
  let ?ty = "case b_data b of None \<Rightarrow> ''stone_slab''
                            | Some d \<Rightarrow> slabTable ! nat (d AND 7)"
  have low: "d AND 7 = d mod 8" for d :: int
  proof -
    have "d AND 7 = take_bit 3 d"
      by (simp add: take_bit_eq_mask mask_eq_exp_minus_1)
    then show ?thesis
      by (simp add: take_bit_eq_mod)
  qed
  have ty: "resolveSlabType (b_data b') =
              (case b_data b' of None \<Rightarrow> ''stone_slab''
                               | Some d \<Rightarrow> slabTable ! nat (d AND 7))" for b' :: block
    by (cases "b_data b'") (simp_all add: resolveSlabType_table low, simp add: resolveSlabType_def)
  have res: "b_type ?resolved = ?ty
             \<and> (b_x ?resolved, b_y ?resolved, b_z ?resolved) = (b_x b, b_y b, b_z b)"
    using ty [of b] by simp
  have single: "map b_type (processBlocks [b']) = [resolveSlabType (b_data b')]"
    if "b_type b' = ''slab''" for b' :: block
  proof -
    have "buildBlockMap [b'] (posKey b') \<noteq> Some None"
      by (rule buildBlockMap_no_marks)
    with that processBlock_generic_slab [of b' "buildBlockMap [b']"] show ?thesis
      by (simp add: processBlocks_def)
  qed
  have step: "m' (posKey b) \<noteq> Some None \<longrightarrow>
           (\<exists>r. processBlock m' b = (m', [r]) \<and> b_type r = ?ty
              \<and> (b_x r, b_y r, b_z r) = (b_x b, b_y b, b_z b))" for m'
    using assms processBlock_generic_slab [of b m'] res by blast
  have skip: "m' (posKey b) = Some None \<longrightarrow> processBlock m' b = (m', [])" for m'
    by (simp add: processBlock_consumed)
  have run: "(skippedAt bs i \<longleftrightarrow>
                 (\<exists>j<i. str_includes (b_type (bs ! j)) ''double_plant''
                    \<and> (b_x (bs ! j), b_y (bs ! j) + 1, b_z (bs ! j)) = posKey b
                    \<and> \<not> skippedAt bs j))
              \<and> (skippedAt bs i \<longrightarrow>
                   processBlocks bs =
                     processLoop (buildBlockMap bs) (take i bs)
                       @ processLoop (blockMapAfter (buildBlockMap bs) (take i bs))
                           (drop (Suc i) bs))
              \<and> (\<not> skippedAt bs i \<longrightarrow>
                   (\<exists>r. processBlocks bs =
                          processLoop (buildBlockMap bs) (take i bs) @ [r]
                            @ processLoop (blockMapAfter (buildBlockMap bs) (take i bs))
                                (drop (Suc i) bs)
                      \<and> b_type r = ?ty
                      \<and> (b_x r, b_y r, b_z r) = (b_x b, b_y b, b_z b)))"
    if i: "i < length bs" and bi: "bs ! i = b"
  proof -
    let ?m = "blockMapAfter (buildBlockMap bs) (take i bs)"
    have at: "processBlocks bs =
                processLoop (buildBlockMap bs) (take i bs) @ snd (processBlock ?m b)
                  @ processLoop (fst (processBlock ?m b)) (drop (Suc i) bs)"
      using processBlocks_at [OF i] i bi
      by (simp add: take_Suc_conv_app_nth blockMapAfter_snoc)
    have sk: "skippedAt bs i \<longleftrightarrow> ?m (posKey b) = Some None"
      using bi by (simp add: skippedAt_def)
    have c1: "skippedAt bs i \<longleftrightarrow>
                 (\<exists>j<i. str_includes (b_type (bs ! j)) ''double_plant''
                    \<and> (b_x (bs ! j), b_y (bs ! j) + 1, b_z (bs ! j)) = posKey b
                    \<and> \<not> skippedAt bs j)"
      using skippedAt_iff [OF i] bi by simp
    have c2: "processBlocks bs =
                     processLoop (buildBlockMap bs) (take i bs)
                       @ processLoop ?m (drop (Suc i) bs)"
      if "skippedAt bs i"
    proof -
      from that sk skip [of ?m] have "processBlock ?m b = (?m, [])"
        by blast
      with at show ?thesis by simp
    qed
    have c3: "\<exists>r. processBlocks bs =
                          processLoop (buildBlockMap bs) (take i bs) @ [r]
                            @ processLoop ?m (drop (Suc i) bs)
                      \<and> b_type r = ?ty
                      \<and> (b_x r, b_y r, b_z r) = (b_x b, b_y b, b_z b)"
      if "\<not> skippedAt bs i"
    proof -
      from that sk step [of ?m] obtain r where
        r: "processBlock ?m b = (?m, [r])" "b_type r = ?ty"
           "(b_x r, b_y r, b_z r) = (b_x b, b_y b, b_z b)"
        by blast
      from at r(1) have "processBlocks bs =
                          processLoop (buildBlockMap bs) (take i bs) @ [r]
                            @ processLoop ?m (drop (Suc i) bs)"
        by simp
      with r(2,3) show ?thesis by blast
    qed
    from c1 c2 c3 show ?thesis by blast
  qed
  have s5: "map b_type (processBlocks [b\<lparr>b_data := Some 5\<rparr>]) = [''stone_brick_slab'']"
    using single [of "b\<lparr>b_data := Some 5\<rparr>"] assms(1)
    by (simp add: resolveSlabType_table slabTable_def)
  have s0: "map b_type (processBlocks [b\<lparr>b_data := Some 0\<rparr>]) = [''stone_slab'']"
    using single [of "b\<lparr>b_data := Some 0\<rparr>"] assms(1)
    by (simp add: resolveSlabType_table slabTable_def)
  have sn: "map b_type (processBlocks [b\<lparr>b_data := None\<rparr>]) = [''stone_slab'']"
    using single [of "b\<lparr>b_data := None\<rparr>"] assms(1)
    by (simp add: resolveSlabType_def)
  have one: "map b_type (processBlocks [b]) = [?ty]"
    using single [OF assms(1)] ty [of b] by simp
  from step [of m] skip [of m] run one s5 s0 sn show ?thesis
    by blast
qed

text \<open>
  The theorem at the snapshot of a double fern at \<open>(1, 0, 3)\<close> followed by
  \<^verbatim>\<open>{type:'slab', data:13}\<close>: two above the fern the slab is reached and
  resolved (the low bits of 13 are 5), directly above it the slab is skipped.
\<close>

theorem C1_generic_slab_resolution_witness:
  "b_type ((plainBlock ''slab'' 1 2 3)\<lparr>b_data := Some 13\<rparr>) = ''slab''
   \<and> \<not> skippedAt [plainBlock ''double_plant_fern'' 1 0 3,
                     (plainBlock ''slab'' 1 2 3)\<lparr>b_data := Some 13\<rparr>] 1
   \<and> (\<exists>r \<in> set (processBlocks [plainBlock ''double_plant_fern'' 1 0 3,
                                    (plainBlock ''slab'' 1 2 3)\<lparr>b_data := Some 13\<rparr>]).
         b_type r = ''stone_brick_slab'' \<and> (b_x r, b_y r, b_z r) = (1, 2, 3))
   \<and> b_type ((plainBlock ''slab'' 1 1 3)\<lparr>b_data := Some 13\<rparr>) = ''slab''
   \<and> skippedAt [plainBlock ''double_plant_fern'' 1 0 3,
                 (plainBlock ''slab'' 1 1 3)\<lparr>b_data := Some 13\<rparr>] 1
   \<and> processBlocks [plainBlock ''double_plant_fern'' 1 0 3,
                     (plainBlock ''slab'' 1 1 3)\<lparr>b_data := Some 13\<rparr>]
       = processLoop (buildBlockMap [plainBlock ''double_plant_fern'' 1 0 3,
                                     (plainBlock ''slab'' 1 1 3)\<lparr>b_data := Some 13\<rparr>])
           [plainBlock ''double_plant_fern'' 1 0 3]"
proof -
  let ?f = "plainBlock ''double_plant_fern'' 1 0 3"
  let ?b = "(plainBlock ''slab'' 1 2 3)\<lparr>b_data := Some 13\<rparr>"
  let ?c = "(plainBlock ''slab'' 1 1 3)\<lparr>b_data := Some 13\<rparr>"
  let ?bs = "[?f, ?b]"
  let ?cs = "[?f, ?c]"
  have t: "b_type ?b = ''slab''" "b_type ?c = ''slab''"
    by (simp_all add: plainBlock_def)
  have d: "b_data ?b = Some 13" "b_x ?b = 1" "b_y ?b = 2" "b_z ?b = 3"
    by (simp_all add: plainBlock_def)
  have v: "slabTable ! nat ((13::int) AND 7) = ''stone_brick_slab''"
    by (simp add: slabTable_def)
  have ib: "(1::nat) < length ?bs \<and> ?bs ! 1 = ?b"
    by simp
  have ic: "(1::nat) < length ?cs \<and> ?cs ! 1 = ?c"
    by simp
  have f: "str_includes (b_type (?bs ! 0)) ''double_plant''"
    "str_includes (b_type (?cs ! 0)) ''double_plant''"
    by (simp_all add: plainBlock_def startsWith_def)
  have s0: "\<not> skippedAt ?bs 0" "\<not> skippedAt ?cs 0"
    by (simp_all add: skippedAt_def buildBlockMap_def posKey_def plainBlock_def)
  have pb: "(b_x (?bs ! 0), b_y (?bs ! 0) + 1, b_z (?bs ! 0)) \<noteq> posKey ?b"
    by (simp add: plainBlock_def posKey_def)
  have pc: "(b_x (?cs ! 0), b_y (?cs ! 0) + 1, b_z (?cs ! 0)) = posKey ?c"
    by (simp add: plainBlock_def posKey_def)
  note thb = C1_generic_slab_resolution [OF t(1), of "buildBlockMap ?bs" 1 ?bs]
  note thc = C1_generic_slab_resolution [OF t(2), of "buildBlockMap ?cs" 1 ?cs]
  from thb ib have eb: "skippedAt ?bs 1 \<longleftrightarrow>
                 (\<exists>j<1. str_includes (b_type (?bs ! j)) ''double_plant''
                    \<and> (b_x (?bs ! j), b_y (?bs ! j) + 1, b_z (?bs ! j)) = posKey ?b
                    \<and> \<not> skippedAt ?bs j)"
    by blast
  have nb: "\<not> skippedAt ?bs 1"
  proof
    assume "skippedAt ?bs 1"
    with eb obtain j where "j < 1"
      "(b_x (?bs ! j), b_y (?bs ! j) + 1, b_z (?bs ! j)) = posKey ?b"
      by blast
    then have "(b_x (?bs ! 0), b_y (?bs ! 0) + 1, b_z (?bs ! 0)) = posKey ?b"
      by simp
    with pb show False by blast
  qed
  with thb ib obtain r where
    r: "processBlocks ?bs =
          processLoop (buildBlockMap ?bs) (take 1 ?bs) @ [r]
            @ processLoop (blockMapAfter (buildBlockMap ?bs) (take 1 ?bs)) (drop (Suc 1) ?bs)"
       "b_type r = (case b_data ?b of None \<Rightarrow> ''stone_slab''
                                    | Some d \<Rightarrow> slabTable ! nat (d AND 7))"
       "(b_x r, b_y r, b_z r) = (b_x ?b, b_y ?b, b_z ?b)"
    by blast
  from r(1) have "r \<in> set (processBlocks ?bs)"
    by simp
  with r(2,3) have rb: "\<exists>r \<in> set (processBlocks ?bs).
         b_type r = ''stone_brick_slab'' \<and> (b_x r, b_y r, b_z r) = (1, 2, 3)"
    unfolding d option.case v by blast
  from thc ic have ec: "skippedAt ?cs 1 \<longleftrightarrow>
                 (\<exists>j<1. str_includes (b_type (?cs ! j)) ''double_plant''
                    \<and> (b_x (?cs ! j), b_y (?cs ! j) + 1, b_z (?cs ! j)) = posKey ?c
                    \<and> \<not> skippedAt ?cs j)"
    by blast
  have "(0::nat) < 1" by simp
  with f(2) pc s0(2) ec have sc: "skippedAt ?cs 1"
    by blast
  with thc ic have "processBlocks ?cs =
                     processLoop (buildBlockMap ?cs) (take 1 ?cs)
                       @ processLoop (blockMapAfter (buildBlockMap ?cs) (take 1 ?cs))
                           (drop (Suc 1) ?cs)"
    by blast
  then have rc: "processBlocks ?cs = processLoop (buildBlockMap ?cs) [?f]"
    by simp
  from t nb rb sc rc show ?thesis
    by blast
qed

section \<open>Properties of the render filter\<close>

lemma farFromCenter_sqrt:
  "farFromCenter dx dz \<longleftrightarrow> sqrt (real_of_int (dx * dx + dz * dz)) > 75"
proof -
  have "sqrt (real_of_int (dx * dx + dz * dz)) > 75
          \<longleftrightarrow> sqrt (real_of_int (dx * dx + dz * dz)) > sqrt (75 * 75)"
    by simp
  also have "\<dots> \<longleftrightarrow> real_of_int (dx * dx + dz * dz) > 75 * 75"
    by (rule real_sqrt_less_iff)
  also have "\<dots> \<longleftrightarrow> dx * dx + dz * dz > 75 * 75"
    by linarith
  finally show ?thesis by (simp add: farFromCenter_def)
qed

lemma renderFilter_iff:
  "renderFilter b \<longleftrightarrow>
     \<not> (b_y b < - 1 \<or> b_y b > 189
        \<or> sqrt (real_of_int ((b_x b - 128) * (b_x b - 128) + (b_z b - 27) * (b_z b - 27))) > 75)"
proof -
  have c: "centerX = 128" "centerZ = 27"
    by (simp_all add: centerX_def centerZ_def)
  have f: "(if P then False else if Q then False else True) = (\<not> (P \<or> Q))" for P Q
    by simp
  show ?thesis
    unfolding renderFilter_def minRenderHeight_def maxRenderHeight_def c farFromCenter_sqrt f
    by (simp only: disj_assoc)
qed

lemma buildInstanceGroups_excluded:
  "\<not> renderFilter b \<Longrightarrow> buildInstanceGroups (xs @ b # ys) = buildInstanceGroups (xs @ ys)"
  by (simp add: buildInstanceGroups_def)

text \<open>
  Claim C9. The filter keeps a block exactly when its height is within
  \<open>[-1, 189]\<close> and its horizontal distance from \<open>(128, 27)\<close> is at most 75.
  A block the filter drops leaves no trace: the instance groups, with their
  positions and counts, and the template requests made for them are those of
  the snapshot without that block.
\<close>

theorem C9_render_filter:
  "(renderFilter b \<longleftrightarrow>
      \<not> (b_y b < - 1 \<or> b_y b > 189
         \<or> sqrt (real_of_int ((b_x b - 128) * (b_x b - 128)
                               + (b_z b - 27) * (b_z b - 27))) > 75))
   \<and> (\<not> renderFilter b \<longrightarrow>
        buildInstanceGroups (xs @ b # ys) = buildInstanceGroups (xs @ ys)
        \<and> templateRequests (buildInstanceGroups (xs @ b # ys))
            = templateRequests (buildInstanceGroups (xs @ ys)))"
  using renderFilter_iff [of b] buildInstanceGroups_excluded [of b xs ys] by simp

text \<open>
  The theorem at a block 76 units east of the centre and at one at height 190,
  each followed by a block at the centre: neither changes the groups.
\<close>

theorem C9_render_filter_witness:
  "\<not> renderFilter (plainBlock ''stone'' 204 10 27)
   \<and> \<not> renderFilter (plainBlock ''stone'' 128 190 27)
   \<and> renderFilter (plainBlock ''stone'' 203 10 27)
   \<and> buildInstanceGroups [plainBlock ''stone'' 204 10 27, plainBlock ''dirt'' 128 10 27]
       = buildInstanceGroups [plainBlock ''dirt'' 128 10 27]
   \<and> buildInstanceGroups [plainBlock ''stone'' 128 190 27, plainBlock ''dirt'' 128 10 27]
       = buildInstanceGroups [plainBlock ''dirt'' 128 10 27]"
proof -
  have a: "\<not> renderFilter (plainBlock ''stone'' 204 10 27)"
    by (simp add: renderFilter_def plainBlock_def minRenderHeight_def maxRenderHeight_def
          centerX_def centerZ_def farFromCenter_def)
  have b: "\<not> renderFilter (plainBlock ''stone'' 128 190 27)"
    by (simp add: renderFilter_def plainBlock_def minRenderHeight_def maxRenderHeight_def)
  have c: "renderFilter (plainBlock ''stone'' 203 10 27)"
    by (simp add: renderFilter_def plainBlock_def minRenderHeight_def maxRenderHeight_def
          centerX_def centerZ_def farFromCenter_def)
  from a b c
    C9_render_filter [of "plainBlock ''stone'' 204 10 27" "[]" "[plainBlock ''dirt'' 128 10 27]"]
    C9_render_filter [of "plainBlock ''stone'' 128 190 27" "[]" "[plainBlock ''dirt'' 128 10 27]"]
  show ?thesis by simp
qed

section \<open>Properties of slabs\<close>














section \<open>Properties of the draw order\<close>

lemma compareEntries_rank: "compareEntries a b \<le> 0 \<longleftrightarrow> drawRank a \<le> drawRank b"
  by (simp add: compareEntries_def drawRank_def)

lemma set_insertBy: "set (insertBy cmp a xs) = insert a (set xs)"
  by (induction xs) auto

lemma mset_insertBy: "mset (insertBy cmp a xs) = add_mset a (mset xs)"
  by (induction xs) auto

lemma mset_sortBy: "mset (sortBy cmp xs) = mset xs"
  by (induction xs) (auto simp: mset_insertBy)

lemma sorted_insertBy:
  "sorted_wrt (\<lambda>x y. drawRank x \<le> drawRank y) xs \<Longrightarrow>
   sorted_wrt (\<lambda>x y. drawRank x \<le> drawRank y) (insertBy compareEntries a xs)"
proof (induction xs)
  case Nil
  then show ?case by simp
next
  case (Cons b bs)
  show ?case
  proof (cases "compareEntries a b \<le> 0")
    case True
    then have "drawRank a \<le> drawRank b" by (simp add: compareEntries_rank)
    with Cons.prems True show ?thesis by fastforce
  next
    case False
    then have "drawRank b \<le> drawRank a" by (simp add: compareEntries_rank)
    with Cons False show ?thesis by (auto simp: set_insertBy)
  qed
qed

lemma sorted_sortEntries:
  "sorted_wrt (\<lambda>x y. drawRank x \<le> drawRank y) (sortEntries es)"
  unfolding sortEntries_def
  by (induction es) (simp_all add: sorted_insertBy)

lemma length_sortEntries: "length (sortEntries es) = length es"
  unfolding sortEntries_def by (metis mset_sortBy size_mset)

text \<open>
  Claim C5. The sorted list holds the entries it was given, and for any two
  positions \<open>i < j\<close> of it: the entry at \<open>i\<close> is not transparent when the
  entry at \<open>j\<close> is opaque; with equal transparency flags, it is not a leaf
  entry when the one at \<open>j\<close> is not; and with equal transparency and leaf
  flags, it is not a slab entry when the one at \<open>j\<close> is not.
\<close>

theorem C5_draw_order:
  "mset (sortEntries es) = mset es
   \<and> (\<forall>i j. i < j \<and> j < length es \<longrightarrow>
         \<not> (isTransparent (sortEntries es ! i) \<and> \<not> isTransparent (sortEntries es ! j))
         \<and> (isTransparent (sortEntries es ! i) = isTransparent (sortEntries es ! j) \<longrightarrow>
              \<not> (isLeaf (sortEntries es ! i) \<and> \<not> isLeaf (sortEntries es ! j)))
         \<and> (isTransparent (sortEntries es ! i) = isTransparent (sortEntries es ! j)
              \<and> isLeaf (sortEntries es ! i) = isLeaf (sortEntries es ! j) \<longrightarrow>
              \<not> (isSlab (sortEntries es ! i) \<and> \<not> isSlab (sortEntries es ! j))))"
proof -
  have r: "drawRank (sortEntries es ! i) \<le> drawRank (sortEntries es ! j)"
    if "i < j" "j < length es" for i j
    using sorted_sortEntries [of es] that
    by (simp add: sorted_wrt_iff_nth_less length_sortEntries)
  have "\<not> (isTransparent a \<and> \<not> isTransparent b)
         \<and> (isTransparent a = isTransparent b \<longrightarrow> \<not> (isLeaf a \<and> \<not> isLeaf b))
         \<and> (isTransparent a = isTransparent b \<and> isLeaf a = isLeaf b \<longrightarrow>
              \<not> (isSlab a \<and> \<not> isSlab b))"
    if "drawRank a \<le> drawRank b" for a b
    using that by (auto simp: drawRank_def split: if_splits)
  note h = this
  have m: "mset (sortEntries es) = mset es"
    by (simp add: sortEntries_def mset_sortBy)
  have "\<forall>i j. i < j \<and> j < length es \<longrightarrow>
         \<not> (isTransparent (sortEntries es ! i) \<and> \<not> isTransparent (sortEntries es ! j))
         \<and> (isTransparent (sortEntries es ! i) = isTransparent (sortEntries es ! j) \<longrightarrow>
              \<not> (isLeaf (sortEntries es ! i) \<and> \<not> isLeaf (sortEntries es ! j)))
         \<and> (isTransparent (sortEntries es ! i) = isTransparent (sortEntries es ! j)
              \<and> isLeaf (sortEntries es ! i) = isLeaf (sortEntries es ! j) \<longrightarrow>
              \<not> (isSlab (sortEntries es ! i) \<and> \<not> isSlab (sortEntries es ! j)))"
  proof (intro allI impI)
    fix i j
    assume "i < j \<and> j < length es"
    then have "drawRank (sortEntries es ! i) \<le> drawRank (sortEntries es ! j)"
      using r by blast
    then show "\<not> (isTransparent (sortEntries es ! i) \<and> \<not> isTransparent (sortEntries es ! j))
         \<and> (isTransparent (sortEntries es ! i) = isTransparent (sortEntries es ! j) \<longrightarrow>
              \<not> (isLeaf (sortEntries es ! i) \<and> \<not> isLeaf (sortEntries es ! j)))
         \<and> (isTransparent (sortEntries es ! i) = isTransparent (sortEntries es ! j)
              \<and> isLeaf (sortEntries es ! i) = isLeaf (sortEntries es ! j) \<longrightarrow>
              \<not> (isSlab (sortEntries es ! i) \<and> \<not> isSlab (sortEntries es ! j)))"
      by (rule h)
  qed
  with m show ?thesis by blast
qed


text \<open>
  The theorem at four entries given in the order leaves, slab, glass, stone:
  the sort returns stone, slab, glass, leaves.
\<close>

theorem C5_draw_order_witness:
  "sortEntries
     [\<lparr>se_mesh = ''oak_leaves'', isTransparent = True, isLeaf = True, isSlab = False\<rparr>,
      \<lparr>se_mesh = ''stone_slab_slab_upper'', isTransparent = False, isLeaf = False, isSlab = True\<rparr>,
      \<lparr>se_mesh = ''glass'', isTransparent = True, isLeaf = False, isSlab = False\<rparr>,
      \<lparr>se_mesh = ''stone'', isTransparent = False, isLeaf = False, isSlab = False\<rparr>]
   = [\<lparr>se_mesh = ''stone'', isTransparent = False, isLeaf = False, isSlab = False\<rparr>,
      \<lparr>se_mesh = ''stone_slab_slab_upper'', isTransparent = False, isLeaf = False, isSlab = True\<rparr>,
      \<lparr>se_mesh = ''glass'', isTransparent = True, isLeaf = False, isSlab = False\<rparr>,
      \<lparr>se_mesh = ''oak_leaves'', isTransparent = True, isLeaf = True, isSlab = False\<rparr>]
   \<and> \<not> (isTransparent (sortEntries
          [\<lparr>se_mesh = ''oak_leaves'', isTransparent = True, isLeaf = True, isSlab = False\<rparr>,
           \<lparr>se_mesh = ''stone_slab_slab_upper'', isTransparent = False, isLeaf = False, isSlab = True\<rparr>,
           \<lparr>se_mesh = ''glass'', isTransparent = True, isLeaf = False, isSlab = False\<rparr>,
           \<lparr>se_mesh = ''stone'', isTransparent = False, isLeaf = False, isSlab = False\<rparr>] ! 1)
        \<and> \<not> isTransparent (sortEntries
          [\<lparr>se_mesh = ''oak_leaves'', isTransparent = True, isLeaf = True, isSlab = False\<rparr>,
           \<lparr>se_mesh = ''stone_slab_slab_upper'', isTransparent = False, isLeaf = False, isSlab = True\<rparr>,
           \<lparr>se_mesh = ''glass'', isTransparent = True, isLeaf = False, isSlab = False\<rparr>,
           \<lparr>se_mesh = ''stone'', isTransparent = False, isLeaf = False, isSlab = False\<rparr>] ! 2))"
proof -
  let ?es = "[\<lparr>se_mesh = ''oak_leaves'', isTransparent = True, isLeaf = True, isSlab = False\<rparr>,
      \<lparr>se_mesh = ''stone_slab_slab_upper'', isTransparent = False, isLeaf = False, isSlab = True\<rparr>,
      \<lparr>se_mesh = ''glass'', isTransparent = True, isLeaf = False, isSlab = False\<rparr>,
      \<lparr>se_mesh = ''stone'', isTransparent = False, isLeaf = False, isSlab = False\<rparr>]"
  have s: "sortEntries ?es =
     [\<lparr>se_mesh = ''stone'', isTransparent = False, isLeaf = False, isSlab = False\<rparr>,
      \<lparr>se_mesh = ''stone_slab_slab_upper'', isTransparent = False, isLeaf = False, isSlab = True\<rparr>,
      \<lparr>se_mesh = ''glass'', isTransparent = True, isLeaf = False, isSlab = False\<rparr>,
      \<lparr>se_mesh = ''oak_leaves'', isTransparent = True, isLeaf = True, isSlab = False\<rparr>]"
    by (simp add: sortEntries_def compareEntries_def)
  have l: "(1::nat) < 2 \<and> 2 < length ?es"
    by simp
  from C5_draw_order [of ?es, THEN conjunct2, rule_format, OF l] s show ?thesis
    by blast
qed

section \<open>Properties of the connection key\<close>

lemma connectionsKey_perm:
  assumes "mset c1 = mset c2"
  shows "connectionsKey c1 = connectionsKey c2"
proof -
  let ?A = "map fst (filter (\<lambda>(dir, v). v = JStr ''true'') c1)"
  let ?B = "map fst (filter (\<lambda>(dir, v). v = JStr ''true'') c2)"
  from assms have ms: "mset ?A = mset ?B"
    by simp
  have "sort ?A = sort ?B"
  proof (rule properties_for_sort)
    show "mset (sort ?B) = mset ?A" using ms by simp
    show "sorted (sort ?B)" by simp
  qed
  then show ?thesis by (simp add: connectionsKey_def)
qed

lemma groupKey_with_connections:
  fixes b :: block
  shows "groupKey (b\<lparr>b_connections := Some c\<rparr>) =
     (if isSlabKeyed b then
        b_type b @ ''_slab_'' @ (if upperSlabFlag b then ''upper'' else ''lower'')
      else if str_includes (b_type b) ''concrete'' \<or> str_includes (b_type b) ''wool'' then
        b_type b
      else if str_includes (b_type b) ''_stairs'' \<or> b_type b = ''stairs'' then
        b_type b @ ''_facing_'' @ orDefault (b_facing b) ''east''
          @ ''_half_'' @ orDefault (b_half b) ''bottom''
      else if str_includes (b_type b) ''_trapdoor'' \<or> b_type b = ''trapdoor'' then
        b_type b @ ''_'' @ trapdoorFacing b
          @ ''_'' @ (if trapdoorIsOpen b then ''open'' else ''closed'')
          @ ''_'' @ (if trapdoorIsTop b then ''top'' else ''bottom'')
      else
        b_type b @ ''_connections_''
          @ (if connectionsKey c = [] then ''none'' else connectionsKey c)
          @ (case b_hanging b of
               None \<Rightarrow> []
             | Some h \<Rightarrow> ''_'' @ (if h then ''hanging'' else ''standing'')))"
proof -
  have h: "isSlabKeyed (b\<lparr>b_connections := c'\<rparr>) = isSlabKeyed b"
    "upperSlabFlag (b\<lparr>b_connections := c'\<rparr>) = upperSlabFlag b"
    "trapdoorFacing (b\<lparr>b_connections := c'\<rparr>) = trapdoorFacing b"
    "trapdoorIsOpen (b\<lparr>b_connections := c'\<rparr>) = trapdoorIsOpen b"
    "trapdoorIsTop (b\<lparr>b_connections := c'\<rparr>) = trapdoorIsTop b" for c'
    by (simp_all add: isSlabKeyed_def upperSlabFlag_def trapdoorFacing_def
          trapdoorIsOpen_def trapdoorIsTop_def split: option.splits)
  show ?thesis
    by (simp add: groupKey_def h)
qed

text \<open>
  Claim C6. Two connections objects with the same entries, listed in any two
  orders, give the same sorted direction string, hence the same group key in
  \<^verbatim>\<open>init\<close> and the same cache key in \<^verbatim>\<open>TextureLoader.loadBlock\<close>.
\<close>

theorem C6_connection_key_order:
  fixes b :: block
  assumes "distinct (map fst c1)" and "distinct (map fst c2)" and "set c1 = set c2"
  shows "connectionsKey c1 = connectionsKey c2
     \<and> groupKey (b\<lparr>b_connections := Some c1\<rparr>) = groupKey (b\<lparr>b_connections := Some c2\<rparr>)
     \<and> wallFenceCacheKey t c1 = wallFenceCacheKey t c2"
proof -
  from assms have "distinct c1" "distinct c2"
    by (simp_all add: distinct_map)
  with assms(3) have "mset c1 = mset c2"
    by (simp add: set_eq_iff_mset_eq_distinct)
  then have k: "connectionsKey c1 = connectionsKey c2"
    by (rule connectionsKey_perm)
  then show ?thesis
    by (simp only: groupKey_with_connections wallFenceCacheKey_def simp_thms)
qed


text \<open>
  The theorem at the two orders of north and east on a cobblestone wall: both
  give the key \<^verbatim>\<open>cobblestone_wall_connections_east_north\<close>.
\<close>

theorem C6_connection_key_order_witness:
  "groupKey ((plainBlock ''cobblestone_wall'' 0 0 0)
       \<lparr>b_connections := Some [(''north'', JStr ''true''), (''east'', JStr ''true'')]\<rparr>)
     = groupKey ((plainBlock ''cobblestone_wall'' 0 0 0)
       \<lparr>b_connections := Some [(''east'', JStr ''true''), (''north'', JStr ''true'')]\<rparr>)
   \<and> connectionsKey [(''north'', JStr ''true''), (''east'', JStr ''true'')] = ''east_north''"
proof -
  have d: "distinct (map fst [(''north'', JStr ''true''), (''east'', JStr ''true'')])"
    "distinct (map fst [(''east'', JStr ''true''), (''north'', JStr ''true'')])"
    by simp_all
  have e: "set [(''north'', JStr ''true''), (''east'', JStr ''true'')]
             = set [(''east'', JStr ''true''), (''north'', JStr ''true'')]"
    by auto
  have k: "connectionsKey [(''north'', JStr ''true''), (''east'', JStr ''true'')] = ''east_north''"
    by (simp add: connectionsKey_def)
  from C6_connection_key_order [OF d e, of "plainBlock ''cobblestone_wall'' 0 0 0"] k
  show ?thesis by blast
qed


section \<open>Properties of stairs\<close>

lemma getStairGeometry_geometry:
  assumes "ran cache \<subseteq> {Buffer stairVertices stairUvs stairIndices}"
  shows "fst (getStairGeometry facing cache) = Buffer stairVertices stairUvs stairIndices"
    and "ran (snd (getStairGeometry facing cache)) \<subseteq> {Buffer stairVertices stairUvs stairIndices}"
proof -
  show "fst (getStairGeometry facing cache) = Buffer stairVertices stairUvs stairIndices"
  proof (cases "cache (''stair_'' @ facing)")
    case None
    then show ?thesis by (simp add: getStairGeometry_def Let_def)
  next
    case (Some g)
    with assms have "g = Buffer stairVertices stairUvs stairIndices"
      by (auto simp: ran_def)
    with Some show ?thesis by (simp add: getStairGeometry_def)
  qed
  show "ran (snd (getStairGeometry facing cache)) \<subseteq> {Buffer stairVertices stairUvs stairIndices}"
  proof (cases "cache (''stair_'' @ facing)")
    case None
    with assms show ?thesis
      by (auto simp: getStairGeometry_def ran_def Let_def split: if_splits)
  next
    case (Some g)
    with assms show ?thesis by (simp add: getStairGeometry_def)
  qed
qed

lemma stairCacheAfter_ran:
  "ran (stairCacheAfter calls) \<subseteq> {Buffer stairVertices stairUvs stairIndices}"
proof (induction calls rule: rev_induct)
  case Nil
  show ?case by (simp add: stairCacheAfter_def)
next
  case (snoc c calls)
  show ?case
  proof (cases c)
    case (GetStair f)
    with getStairGeometry_geometry(2) [OF snoc.IH, of f] show ?thesis
      by (simp add: stairCacheAfter_def)
  next
    case ClearStairs
    then show ?thesis by (simp add: stairCacheAfter_def)
  qed
qed

lemma createStairBlock_cache:
  "dom (snd (createStairBlock ev t opts Map.empty)) = {''stair_east''}"
  by (simp add: createStairBlock_def getStairGeometry_def Let_def split: sum.splits)

lemma createStairBlock_mesh:
  assumes "e_loads ev ''textures/blocks/planks_spruce.png''"
  shows "fst (createStairBlock ev t opts (stairCacheAfter calls)) =
           Inr (Mesh t (Buffer stairVertices stairUvs stairIndices)
                  [standardMaterial\<lparr> mat_map := Some (Loaded ''textures/blocks/planks_spruce.png''),
                                     mat_doubleSided := True \<rparr>]
                  origin
                  (if orDefault (o_half opts) ''bottom'' = ''top'' then 1 else 0,
                   facingYaw (orDefault (o_facing opts) ''east''), 0))"
proof -
  obtain g c' where gc: "getStairGeometry ''east'' (stairCacheAfter calls) = (g, c')"
    by (cases "getStairGeometry ''east'' (stairCacheAfter calls)")
  with getStairGeometry_geometry(1) [OF stairCacheAfter_ran, of "''east''" calls]
  have "g = Buffer stairVertices stairUvs stairIndices" by simp
  with gc assms show ?thesis
    by (simp add: createStairBlock_def loadTexture_def Let_def)
qed

lemma rotation_values:
  "makeRotationY 1 = [[- 1, 0, 0], [0, 1, 0], [0, 0, - 1]]"
  "makeRotationY 0 = [[1, 0, 0], [0, 1, 0], [0, 0, 1]]"
  "makeRotationY (3 / 2) = [[0, 0, - 1], [0, 1, 0], [1, 0, 0]]"
  "makeRotationY (1 / 2) = [[0, 0, 1], [0, 1, 0], [- 1, 0, 0]]"
  "makeRotationY (- (1 / 2)) = [[0, 0, - 1], [0, 1, 0], [1, 0, 0]]"
  "makeRotationX 1 = [[1, 0, 0], [0, - 1, 0], [0, 0, - 1]]"
proof -
  have f: "\<lfloor>- 1 :: rat\<rfloor> = - 1"
    using floor_uminus_of_int [of 1, where ?'a = rat] by simp
  show "makeRotationY 1 = [[- 1, 0, 0], [0, 1, 0], [0, 0, - 1]]"
    "makeRotationY 0 = [[1, 0, 0], [0, 1, 0], [0, 0, 1]]"
    "makeRotationY (3 / 2) = [[0, 0, - 1], [0, 1, 0], [1, 0, 0]]"
    "makeRotationY (1 / 2) = [[0, 0, 1], [0, 1, 0], [- 1, 0, 0]]"
    "makeRotationY (- (1 / 2)) = [[0, 0, - 1], [0, 1, 0], [1, 0, 0]]"
    "makeRotationX 1 = [[1, 0, 0], [0, - 1, 0], [0, 0, - 1]]"
    by (simp_all add: makeRotationY_def makeRotationX_def cosPi_def sinPi_def Let_def f)
qed

lemma multiply_3x3:
  "multiply [[a, b, c], [d, e, f], [g, h, i]] [[a', b', c'], [d', e', f'], [g', h', i']] =
     [[a * a' + b * d' + c * g', a * b' + b * e' + c * h', a * c' + b * f' + c * i'],
      [d * a' + e * d' + f * g', d * b' + e * e' + f * h', d * c' + e * f' + f * i'],
      [g * a' + h * d' + i * g', g * b' + h * e' + i * h', g * c' + h * f' + i * i']]"
  by (simp add: multiply_def)

lemma stairInstanceRotation_distinct:
  "distinct (map (\<lambda>f. stairInstanceRotation (opts\<lparr>o_facing := Some f\<rparr>))
               [''north'', ''south'', ''east'', ''west''])"
  by (cases "orDefault (o_half opts) ''bottom'' = ''top''")
     (simp_all add: stairInstanceRotation_def orDefault_def facingYaw_def rotation_values
        multiply_3x3 Let_def)

text \<open>
  Claim C4 does not hold as stated: the geometry requested for north is the
  geometry requested for east, a stair template built for a north-facing stair
  leaves the single cache entry \<^verbatim>\<open>stair_east\<close>, and the matrices written
  for the instances of a north-facing and of an east-facing stair differ.
\<close>

theorem C4_stair_variants_counterexample:
  "fst (getStairGeometry ''north'' Map.empty) = fst (getStairGeometry ''east'' Map.empty)
   \<and> dom (snd (createStairBlock envAllLoad ''spruce_stairs''
                  (noOptions\<lparr>o_facing := Some ''north''\<rparr>) Map.empty)) = {''stair_east''}
   \<and> stairInstanceRotation (noOptions\<lparr>o_facing := Some ''north''\<rparr>)
       \<noteq> stairInstanceRotation (noOptions\<lparr>o_facing := Some ''east''\<rparr>)"
proof -
  have "fst (getStairGeometry ''north'' Map.empty) = fst (getStairGeometry ''east'' Map.empty)"
    by (simp add: getStairGeometry_def Let_def)
  moreover have "stairInstanceRotation (noOptions\<lparr>o_facing := Some ''north''\<rparr>)
       \<noteq> stairInstanceRotation (noOptions\<lparr>o_facing := Some ''east''\<rparr>)"
    using stairInstanceRotation_distinct [of noOptions] by simp
  ultimately show ?thesis
    by (simp add: createStairBlock_cache)
qed

text \<open>
  Claim C4 as amended. The stair geometry is one vertex list whatever the
  facing and whatever the cache has served before; the facing only names the
  cache entry. \<^verbatim>\<open>createStairBlock\<close> always asks for the entry of east, so
  from an empty cache it leaves exactly the entry \<^verbatim>\<open>stair_east\<close>, and when
  the plank texture loads its mesh carries the shared geometry turned by the
  facing. At instancing time the facing is applied as a rotation: the
  matrices of the four facings are pairwise different.
\<close>

theorem C4_stair_geometry_shared:
  "fst (getStairGeometry facing (stairCacheAfter calls))
     = Buffer stairVertices stairUvs stairIndices
   \<and> dom (snd (createStairBlock ev t opts Map.empty)) = {''stair_east''}
   \<and> (e_loads ev ''textures/blocks/planks_spruce.png'' \<longrightarrow>
        fst (createStairBlock ev t opts (stairCacheAfter calls)) =
           Inr (Mesh t (Buffer stairVertices stairUvs stairIndices)
                  [standardMaterial\<lparr> mat_map := Some (Loaded ''textures/blocks/planks_spruce.png''),
                                     mat_doubleSided := True \<rparr>]
                  origin
                  (if orDefault (o_half opts) ''bottom'' = ''top'' then 1 else 0,
                   facingYaw (orDefault (o_facing opts) ''east''), 0)))
   \<and> distinct (map (\<lambda>f. stairInstanceRotation (opts\<lparr>o_facing := Some f\<rparr>))
                 [''north'', ''south'', ''east'', ''west''])"
  using getStairGeometry_geometry(1) [OF stairCacheAfter_ran, of facing calls]
    createStairBlock_cache [of ev t opts] createStairBlock_mesh [of ev t opts calls]
    stairInstanceRotation_distinct [of opts]
  by blast

text \<open>
  The theorem at a north-facing spruce stair, every image loading and the
  cache empty: the mesh has the shared geometry and a yaw of \<open>\<pi>\<close>.
\<close>

theorem C4_stair_geometry_shared_witness:
  "e_loads envAllLoad ''textures/blocks/planks_spruce.png''
   \<and> fst (createStairBlock envAllLoad ''spruce_stairs''
            (noOptions\<lparr>o_facing := Some ''north''\<rparr>) Map.empty) =
       Inr (Mesh ''spruce_stairs'' (Buffer stairVertices stairUvs stairIndices)
              [standardMaterial\<lparr> mat_map := Some (Loaded ''textures/blocks/planks_spruce.png''),
                                 mat_doubleSided := True \<rparr>]
              origin (0, 1, 0))"
proof -
  have l: "e_loads envAllLoad ''textures/blocks/planks_spruce.png''"
    by (simp add: envAllLoad_def)
  have e: "stairCacheAfter [] = Map.empty"
    by (simp add: stairCacheAfter_def)
  from l e C4_stair_geometry_shared [of "''east''" "[]" envAllLoad "''spruce_stairs''"
      "noOptions\<lparr>o_facing := Some ''north''\<rparr>"]
  show ?thesis
    by (simp add: noOptions_def orDefault_def facingYaw_def)
qed


section \<open>Properties of walls and fences\<close>

lemma not_connected:
  assumes "\<forall>v \<in> snd ` set conns. v \<noteq> JStr ''true''"
  shows "\<not> connected conns name"
proof
  assume "connected conns name"
  then have "(name, JStr ''true'') \<in> set conns"
    by (simp add: connected_def map_of_SomeD)
  then have "JStr ''true'' \<in> snd ` set conns"
    by force
  with assms show False by blast
qed

lemma arms_none:
  assumes "\<forall>v \<in> snd ` set conns. v \<noteq> JStr ''true''"
  shows "arms part conns = []"
  using not_connected [OF assms] by (simp add: arms_def)

lemma connectionsKey_none:
  assumes "\<forall>v \<in> snd ` set conns. v \<noteq> JStr ''true''"
  shows "connectionsKey conns = []"
proof -
  from assms have "filter (\<lambda>(dir, v). v = JStr ''true'') conns = []"
    by (auto simp: filter_empty_conv)
  then show ?thesis by (simp add: connectionsKey_def)
qed

lemma wall_arm_iff:
  assumes "d \<in> set directions"
  shows "set (wallSegment (wallMaterial ev t) d) \<subseteq> set (partsOf (createWallBlock ev t conns))
           \<longleftrightarrow> connected conns (fst d)"
proof -
  from assms consider "d = (''north'', 0, - (3 / 8))" | "d = (''east'', 3 / 8, 0)"
    | "d = (''south'', 0, 3 / 8)" | "d = (''west'', - (3 / 8), 0)"
    by (auto simp: directions_def)
  then show ?thesis
    by cases
       (simp_all add: directions_def createWallBlock_def partsOf_def arms_def wallSegment_def
          Let_def origin_def alongX_def alongZ_def)
qed

lemma fence_arm_iff:
  assumes "d \<in> set directions"
  shows "set (fenceRails (wallMaterial ev t) d) \<subseteq> set (partsOf (createFenceBlock ev t conns))
           \<longleftrightarrow> connected conns (fst d)"
proof -
  from assms consider "d = (''north'', 0, - (3 / 8))" | "d = (''east'', 3 / 8, 0)"
    | "d = (''south'', 0, 3 / 8)" | "d = (''west'', - (3 / 8), 0)"
    by (auto simp: directions_def)
  then show ?thesis
    by cases
       (simp_all add: directions_def createFenceBlock_def partsOf_def arms_def fenceRails_def
          Let_def origin_def alongX_def alongZ_def)
qed


lemma groupKey_no_connections:
  fixes b :: block
  assumes "keyedByConnections b" and "connectionsKey conns = []"
  shows "groupKey (b\<lparr>b_connections := Some conns\<rparr>) =
           b_type b @ ''_connections_none''
             @ (case b_hanging b of None \<Rightarrow> []
                | Some h \<Rightarrow> ''_'' @ (if h then ''hanging'' else ''standing''))"
proof -
  have h: "isSlabKeyed (b\<lparr>b_connections := c'\<rparr>) = isSlabKeyed b" for c'
    by (simp add: isSlabKeyed_def)
  from assms show ?thesis
    by (simp add: groupKey_def keyedByConnections_def h)
qed

text \<open>
  Claim C8. For each of the four directions, the wall segment (the two fence
  rails) of that direction is among the parts of the template exactly when the
  connections object stores the string \<^verbatim>\<open>'true'\<close> under the direction's
  name. When no stored value is that string, as when the values are the
  boolean \<^verbatim>\<open>true\<close>, the wall and the fence template consist of the centre
  post alone, and the key of a block that is keyed by its connections ends in
  \<^verbatim>\<open>_connections_none\<close> (before the suffix for \<^verbatim>\<open>hanging\<close>, if any).
\<close>

theorem C8_connection_arms:
  fixes b :: block
  assumes "d \<in> set directions"
  shows "(set (wallSegment (wallMaterial ev t) d) \<subseteq> set (partsOf (createWallBlock ev t conns))
            \<longleftrightarrow> map_of conns (fst d) = Some (JStr ''true''))
     \<and> (set (fenceRails (wallMaterial ev t) d) \<subseteq> set (partsOf (createFenceBlock ev t conns))
            \<longleftrightarrow> map_of conns (fst d) = Some (JStr ''true''))
     \<and> ((\<forall>v \<in> snd ` set conns. v \<noteq> JStr ''true'') \<longrightarrow>
            createWallBlock ev t conns =
              Inr (Group t [Mesh [] (Box (newBox (1 / 2) 1 (1 / 2))) [wallMaterial ev t]
                              origin origin] origin origin)
          \<and> createFenceBlock ev t conns =
              Inr (Group t [Mesh [] (Box (newBox (1 / 4) 1 (1 / 4))) [wallMaterial ev t]
                              origin origin] origin origin)
          \<and> (keyedByConnections b \<longrightarrow>
                groupKey (b\<lparr>b_connections := Some conns\<rparr>) =
                  b_type b @ ''_connections_none''
                    @ (case b_hanging b of None \<Rightarrow> []
                       | Some h \<Rightarrow> ''_'' @ (if h then ''hanging'' else ''standing''))))"
proof -
  have a: "set (wallSegment (wallMaterial ev t) d) \<subseteq> set (partsOf (createWallBlock ev t conns))
            \<longleftrightarrow> map_of conns (fst d) = Some (JStr ''true'')"
    using wall_arm_iff [OF assms, of ev t conns] by (simp add: connected_def)
  have f: "set (fenceRails (wallMaterial ev t) d) \<subseteq> set (partsOf (createFenceBlock ev t conns))
            \<longleftrightarrow> map_of conns (fst d) = Some (JStr ''true'')"
    using fence_arm_iff [OF assms, of ev t conns] by (simp add: connected_def)
  have n: "createWallBlock ev t conns =
              Inr (Group t [Mesh [] (Box (newBox (1 / 2) 1 (1 / 2))) [wallMaterial ev t]
                              origin origin] origin origin)
          \<and> createFenceBlock ev t conns =
              Inr (Group t [Mesh [] (Box (newBox (1 / 4) 1 (1 / 4))) [wallMaterial ev t]
                              origin origin] origin origin)
          \<and> (keyedByConnections b \<longrightarrow>
                groupKey (b\<lparr>b_connections := Some conns\<rparr>) =
                  b_type b @ ''_connections_none''
                    @ (case b_hanging b of None \<Rightarrow> []
                       | Some h \<Rightarrow> ''_'' @ (if h then ''hanging'' else ''standing'')))"
    if nt: "\<forall>v \<in> snd ` set conns. v \<noteq> JStr ''true''"
    using arms_none [OF nt] groupKey_no_connections [OF _ connectionsKey_none [OF nt], of b]
    by (simp add: createWallBlock_def createFenceBlock_def Let_def)
  from a f n show ?thesis by blast
qed

text \<open>
  The theorem at a cobblestone wall whose connections are
  \<^verbatim>\<open>{north: true}\<close> with the boolean: post only, key
  \<^verbatim>\<open>cobblestone_wall_connections_none\<close>.
\<close>

theorem C8_connection_arms_witness:
  "(''north'', 0, - (3 / 8)) \<in> set directions
   \<and> createWallBlock envAllLoad ''cobblestone_wall'' [(''north'', JBool True)] =
       Inr (Group ''cobblestone_wall''
              [Mesh [] (Box (newBox (1 / 2) 1 (1 / 2)))
                 [wallMaterial envAllLoad ''cobblestone_wall''] origin origin] origin origin)
   \<and> groupKey ((plainBlock ''cobblestone_wall'' 0 0 0)
                  \<lparr>b_connections := Some [(''north'', JBool True)]\<rparr>)
       = ''cobblestone_wall_connections_none''
   \<and> \<not> set (wallSegment (wallMaterial envAllLoad ''cobblestone_wall'') (''north'', 0, - (3 / 8)))
          \<subseteq> set (partsOf (createWallBlock envAllLoad ''cobblestone_wall''
                             [(''north'', JBool True)]))"
proof -
  have d: "(''north'', 0, - (3 / 8)) \<in> set directions"
    by (simp add: directions_def)
  have nt: "\<forall>v \<in> snd ` set [(''north'', JBool True)]. v \<noteq> JStr ''true''"
    by simp
  have k: "keyedByConnections (plainBlock ''cobblestone_wall'' 0 0 0)"
    by (simp add: keyedByConnections_def isSlabKeyed_def plainBlock_def startsWith_def)
  have t: "b_type (plainBlock ''cobblestone_wall'' 0 0 0) = ''cobblestone_wall''"
    "b_hanging (plainBlock ''cobblestone_wall'' 0 0 0) = None"
    by (simp_all add: plainBlock_def)
  have m: "map_of [(''north'', JBool True)] (fst (''north'', 0 :: rat, - (3 / 8) :: rat))
             \<noteq> Some (JStr ''true'')"
    by simp
  note th = C8_connection_arms [OF d, of envAllLoad "''cobblestone_wall''"
      "[(''north'', JBool True)]" "plainBlock ''cobblestone_wall'' 0 0 0"]
  from th m have w1:
    "\<not> set (wallSegment (wallMaterial envAllLoad ''cobblestone_wall'') (''north'', 0, - (3 / 8)))
          \<subseteq> set (partsOf (createWallBlock envAllLoad ''cobblestone_wall''
                             [(''north'', JBool True)]))"
    by blast
  from th nt have w2:
    "createWallBlock envAllLoad ''cobblestone_wall'' [(''north'', JBool True)] =
       Inr (Group ''cobblestone_wall''
              [Mesh [] (Box (newBox (1 / 2) 1 (1 / 2)))
                 [wallMaterial envAllLoad ''cobblestone_wall''] origin origin] origin origin)"
    by blast
  from th nt k have
    "groupKey ((plainBlock ''cobblestone_wall'' 0 0 0)
                  \<lparr>b_connections := Some [(''north'', JBool True)]\<rparr>)
       = b_type (plainBlock ''cobblestone_wall'' 0 0 0) @ ''_connections_none''
           @ (case b_hanging (plainBlock ''cobblestone_wall'' 0 0 0) of None \<Rightarrow> []
              | Some h \<Rightarrow> ''_'' @ (if h then ''hanging'' else ''standing''))"
    by blast
  then have w3:
    "groupKey ((plainBlock ''cobblestone_wall'' 0 0 0)
                  \<lparr>b_connections := Some [(''north'', JBool True)]\<rparr>)
       = ''cobblestone_wall_connections_none''"
    by (simp add: t)
  from d w1 w2 w3 show ?thesis by blast
qed


section \<open>Properties of plants\<close>

lemma createBlock_plant_dispatch:
  assumes "reachesPlantTests t"
  shows "isDoublePlant t \<Longrightarrow>
           createBlock ev r t opts cs =
             (createDoublePlantBlock ev r t (propertiesOf ev t), cs)"
    and "\<not> isDoublePlant t \<Longrightarrow> isPlantBlock t \<Longrightarrow>
           createBlock ev r t opts cs = (createPlantBlock ev r t (propertiesOf ev t), cs)"
  using assms by (simp_all add: createBlock_def reachesPlantTests_def Let_def)

lemma reachesPlantTests_examples:
  "reachesPlantTests ''poppy''"
  "reachesPlantTests ''double_plant_fern_bottom''"
  "reachesPlantTests ''double_plant_fern_top''"
  by (simp_all add: reachesPlantTests_def isChainBlock_def endsWith_def startsWith_def
       isDoorBlock_def isGrindstoneBlock_def isSlabBlock_def isStairBlock_def isWallBlock_def
       isFenceBlock_def isTrapdoorBlock_def isLanternBlock_def)

lemma poppy_is_plant: "isPlantBlock ''poppy''" "\<not> isDoublePlant ''poppy''"
  by (simp_all add: isPlantBlock_def isDoublePlant_def excludedBlocks_def plantTypes_def
       startsWith_def)

text \<open>
  Claim C10. The template of a plant whose type contains neither
  \<^verbatim>\<open>crop\<close> nor \<^verbatim>\<open>wheat\<close>, and of a double plant whose type does not
  contain \<^verbatim>\<open>_top\<close>, has the yaw \<open>2\<pi>\<close> times the number drawn from
  \<^verbatim>\<open>Math.random()\<close> and is otherwise fixed by type, properties and
  textures: two builds with different draws differ, in the yaw only, and so do
  the results of \<^verbatim>\<open>createBlock\<close> for a type it hands to these builders.
  For the excepted types the template does not depend on the draw.
\<close>

theorem C10_plant_yaw_random:
  "(\<not> str_includes t ''crop'' \<and> \<not> str_includes t ''wheat'' \<longrightarrow>
      createPlantBlock ev r t properties =
        Inr (Group t (crossedPlanes (plantMaterial ev t properties)) (0, - (1 / 2), 0) (0, r * 2, 0))
      \<and> (r1 \<noteq> r2 \<longrightarrow>
            createPlantBlock ev r1 t properties \<noteq> createPlantBlock ev r2 t properties
            \<and> (reachesPlantTests t \<and> \<not> isDoublePlant t \<and> isPlantBlock t \<longrightarrow>
                  fst (createBlock ev r1 t opts cs) \<noteq> fst (createBlock ev r2 t opts cs))))
   \<and> (str_includes t ''crop'' \<or> str_includes t ''wheat'' \<longrightarrow>
        createPlantBlock ev r1 t properties = createPlantBlock ev r2 t properties)
   \<and> (\<not> str_includes t ''_top'' \<longrightarrow>
        createDoublePlantBlock ev r t properties =
          Inr (Group t (crossedPlanes (plantMaterial ev t properties)) (0, - (1 / 2), 0) (0, r * 2, 0))
        \<and> (r1 \<noteq> r2 \<longrightarrow>
              createDoublePlantBlock ev r1 t properties \<noteq> createDoublePlantBlock ev r2 t properties
              \<and> (reachesPlantTests t \<and> isDoublePlant t \<longrightarrow>
                    fst (createBlock ev r1 t opts cs) \<noteq> fst (createBlock ev r2 t opts cs))))
   \<and> (str_includes t ''_top'' \<longrightarrow>
        createDoublePlantBlock ev r1 t properties = createDoublePlantBlock ev r2 t properties)"
proof -
  have plant: "createPlantBlock ev q t p =
      Inr (Group t (crossedPlanes (plantMaterial ev t p)) (0, - (1 / 2), 0) (0, q * 2, 0))"
    if "\<not> str_includes t ''crop'' \<and> \<not> str_includes t ''wheat''" for q p
    using that by (simp add: createPlantBlock_def)
  have double: "createDoublePlantBlock ev q t p =
      Inr (Group t (crossedPlanes (plantMaterial ev t p)) (0, - (1 / 2), 0) (0, q * 2, 0))"
    if "\<not> str_includes t ''_top''" for q p
    using that by (simp add: createDoublePlantBlock_def)
  have fixed: "createPlantBlock ev r1 t properties = createPlantBlock ev r2 t properties"
    if "str_includes t ''crop'' \<or> str_includes t ''wheat''"
    using that by (auto simp: createPlantBlock_def)
  have fixed': "createDoublePlantBlock ev r1 t properties = createDoublePlantBlock ev r2 t properties"
    if "str_includes t ''_top''"
    using that by (simp add: createDoublePlantBlock_def)
  have a: "createPlantBlock ev r1 t p \<noteq> createPlantBlock ev r2 t p"
    if "\<not> str_includes t ''crop'' \<and> \<not> str_includes t ''wheat''" "r1 \<noteq> r2" for p
    using that by (simp add: plant)
  have b: "createDoublePlantBlock ev r1 t p \<noteq> createDoublePlantBlock ev r2 t p"
    if "\<not> str_includes t ''_top''" "r1 \<noteq> r2" for p
    using that by (simp add: double)
  have c: "fst (createBlock ev r1 t opts cs) \<noteq> fst (createBlock ev r2 t opts cs)"
    if "\<not> str_includes t ''crop'' \<and> \<not> str_includes t ''wheat''" "r1 \<noteq> r2"
      "reachesPlantTests t \<and> \<not> isDoublePlant t \<and> isPlantBlock t"
    using that a [of "propertiesOf ev t"] by (simp add: createBlock_plant_dispatch)
  have d: "fst (createBlock ev r1 t opts cs) \<noteq> fst (createBlock ev r2 t opts cs)"
    if "\<not> str_includes t ''_top''" "r1 \<noteq> r2" "reachesPlantTests t \<and> isDoublePlant t"
    using that b [of "propertiesOf ev t"] by (simp add: createBlock_plant_dispatch)
  from plant [of r properties] double [of r properties] fixed fixed'
    a [of properties] b [of properties] c d
  show ?thesis by blast
qed

text \<open>
  The theorem at a poppy and at the bottom part of a double fern, with the
  draws \<open>0\<close> and \<open>1/2\<close>.
\<close>

theorem C10_plant_yaw_random_witness:
  "\<not> str_includes ''poppy'' ''crop'' \<and> \<not> str_includes ''poppy'' ''wheat''
   \<and> reachesPlantTests ''poppy'' \<and> \<not> isDoublePlant ''poppy'' \<and> isPlantBlock ''poppy''
   \<and> createPlantBlock envAllLoad 0 ''poppy'' noProps
       \<noteq> createPlantBlock envAllLoad (1 / 2) ''poppy'' noProps
   \<and> fst (createBlock envAllLoad 0 ''poppy'' noOptions emptyCaches)
       \<noteq> fst (createBlock envAllLoad (1 / 2) ''poppy'' noOptions emptyCaches)
   \<and> \<not> str_includes ''double_plant_fern_bottom'' ''_top''
   \<and> createDoublePlantBlock envAllLoad 0 ''double_plant_fern_bottom'' noProps
       \<noteq> createDoublePlantBlock envAllLoad (1 / 2) ''double_plant_fern_bottom'' noProps"
proof -
  have a: "\<not> str_includes ''poppy'' ''crop'' \<and> \<not> str_includes ''poppy'' ''wheat''"
    by (simp add: startsWith_def)
  have b: "\<not> str_includes ''double_plant_fern_bottom'' ''_top''"
    by (simp add: startsWith_def)
  have r: "(0 :: rat) \<noteq> 1 / 2"
    by simp
  note pp = reachesPlantTests_examples(1) poppy_is_plant
  note th = C10_plant_yaw_random [of "''poppy''" envAllLoad 0 noProps 0 "1 / 2" noOptions emptyCaches]
  from a r th
  have p: "createPlantBlock envAllLoad 0 ''poppy'' noProps
       \<noteq> createPlantBlock envAllLoad (1 / 2) ''poppy'' noProps"
    by blast
  from a r pp th
  have c: "fst (createBlock envAllLoad 0 ''poppy'' noOptions emptyCaches)
       \<noteq> fst (createBlock envAllLoad (1 / 2) ''poppy'' noOptions emptyCaches)"
    by blast
  from b r C10_plant_yaw_random [of "''double_plant_fern_bottom''" envAllLoad 0 noProps 0 "1 / 2"]
  have d: "createDoublePlantBlock envAllLoad 0 ''double_plant_fern_bottom'' noProps
       \<noteq> createDoublePlantBlock envAllLoad (1 / 2) ''double_plant_fern_bottom'' noProps"
    by blast
  from a b pp p c d show ?thesis by blast
qed

section \<open>Properties of \<^verbatim>\<open>createBlock\<close> under failing loads\<close>

lemma createBlock_stairs:
  "fst (createBlock envNoneLoad 0 ''spruce_stairs'' (noOptions\<lparr>o_facing := Some ''east''\<rparr>) emptyCaches)
     = Inl (ReferenceError ''createFallbackMesh'')"
  by (simp add: createBlock_def isChainBlock_def endsWith_def startsWith_def isDoorBlock_def
       isGrindstoneBlock_def isSlabBlock_def isStairBlock_def createStairBlock_def
       getStairGeometry_def loadTexture_def envNoneLoad_def envAllLoad_def emptyCaches_def Let_def)

lemma createBlock_wool:
  "fst (createBlock envNoneLoad 0 ''white_wool'' noOptions emptyCaches)
     = Inr (createBlockFallback ''white_wool'')"
  by (simp add: createBlock_def isChainBlock_def endsWith_def startsWith_def isDoorBlock_def
       isGrindstoneBlock_def loadTexture_def envNoneLoad_def envAllLoad_def Let_def)


text \<open>
  A rejection of \<^verbatim>\<open>createBlock\<close> can only come from the stair builder,
  when the plank texture does not load.
\<close>

lemma createBlock_rejects_only_stairs:
  assumes "fst (createBlock ev r t opts cs) = Inl e"
  shows "isStairBlock t \<and> \<not> e_loads ev ''textures/blocks/planks_spruce.png''
         \<and> e = ReferenceError ''createFallbackMesh''"
proof -
  have others: "createChainBlock ev t \<noteq> Inl e" "createTorchBlock t \<noteq> Inl e"
    "createDoorBlock t \<noteq> Inl e" "createGrindstoneBlock ev t opts \<noteq> Inl e"
    "createWallBlock ev t c \<noteq> Inl e" "createFenceBlock ev t c \<noteq> Inl e"
    "createTrapdoorBlock ev t opts \<noteq> Inl e" "createLanternBlock ev t h \<noteq> Inl e"
    "createDoublePlantBlock ev r t p \<noteq> Inl e" "createPlantBlock ev r t p \<noteq> Inl e" for c h p
    by (simp_all add: createChainBlock_def createTorchBlock_def createDoorBlock_def
          createGrindstoneBlock_def createWallBlock_def createFenceBlock_def
          createTrapdoorBlock_def createLanternBlock_def createDoublePlantBlock_def
          createPlantBlock_def Let_def split: sum.splits list.splits)
  have slab: "createSlabBlock ev t u c \<noteq> (Inl e, c')" for u c c'
    by (simp add: createSlabBlock_def Let_def split: prod.splits)
  have stair: "createStairBlock ev t o' c = (Inl e, c') \<Longrightarrow>
      \<not> e_loads ev ''textures/blocks/planks_spruce.png'' \<and> e = ReferenceError ''createFallbackMesh''"
    for o' c c'
    by (auto simp: createStairBlock_def loadTexture_def Let_def split: prod.splits sum.splits if_splits)
  show ?thesis
  proof (cases "isStairBlock t")
    case True
    with assms others slab stair show ?thesis
      by (auto simp: createBlock_def Let_def split: if_splits sum.splits prod.splits)
  next
    case False
    with assms others slab show ?thesis
      by (auto simp: createBlock_def Let_def split: if_splits sum.splits prod.splits)
  qed
qed


text \<open>
  Claim C7, evaluated where it fails. With no image loading,
  \<^verbatim>\<open>createBlock('spruce_stairs', {facing: 'east'})\<close> rejects with the
  \<^verbatim>\<open>ReferenceError\<close> of the stair factory's \<^verbatim>\<open>catch\<close> branch and
  returns no mesh, while on the colour branch the same failure is caught and
  answered with the magenta fallback mesh.
\<close>

theorem C7_stair_fallback_escapes:
  "fst (createBlock envNoneLoad 0 ''spruce_stairs'' (noOptions\<lparr>o_facing := Some ''east''\<rparr>)
          emptyCaches)
     = Inl (ReferenceError ''createFallbackMesh'')
   \<and> fst (createBlock envNoneLoad 0 ''white_wool'' noOptions emptyCaches)
     = Inr (Mesh ''fallback_white_wool'' getBlockGeometry (six createFallbackMaterial)
              origin origin)
   \<and> mat_color createFallbackMaterial = 0xFF00FF"
  using createBlock_stairs createBlock_wool
  by (simp add: createBlockFallback_def createFallbackMaterial_def standardMaterial_def)

section \<open>Properties of double plants\<close>

lemma processLoop_skips_marked:
  "m p = Some None \<Longrightarrow>
   processLoop m rest = processLoop m (filter (\<lambda>c. posKey c \<noteq> p) rest)"
proof (induction rest arbitrary: m)
  case Nil
  show ?case by simp
next
  case (Cons c rest)
  show ?case
  proof (cases "posKey c = p")
    case True
    with Cons.prems have "processBlock m c = (m, [])"
      by (simp add: processBlock_consumed)
    with True Cons.IH [of m] Cons.prems show ?thesis by simp
  next
    case False
    obtain m' pushed where pb: "processBlock m c = (m', pushed)"
      by (cases "processBlock m c")
    with processBlock_keeps_mark [of m p c] Cons.prems have "m' p = Some None"
      by simp
    with Cons.IH [of m'] pb False show ?thesis by simp
  qed
qed

lemma isDoublePlant_parts:
  "isDoublePlant (''double_plant_'' @ pt @ ''_bottom'')"
  "isDoublePlant (''double_plant_'' @ pt @ ''_top'')"
  by (simp_all add: isDoublePlant_def startsWith_def)

lemma processBlocks_stacked_double_plants: "map recordSummary (processBlocks [plainBlock ''double_plant_fern'' 2 5 2,
                                      plainBlock ''double_plant_fern'' 2 6 2])
     = [(''double_plant_fern_bottom'', 2, 5, 2), (''double_plant_fern_top'', 2, 6, 2)]"
  by (simp add: processBlocks_def buildBlockMap_def processBlock_def posKey_def plainBlock_def
        plantTypeOf_def recordSummary_def startsWith_def Let_def)

lemma processBlocks_record_above_first: "map recordSummary (processBlocks [plainBlock ''stone'' 2 6 2,
                                      plainBlock ''double_plant_fern'' 2 5 2])
     = [(''stone'', 2, 6, 2), (''double_plant_fern_bottom'', 2, 5, 2),
        (''double_plant_fern_top'', 2, 6, 2)]"
  by (simp add: processBlocks_def buildBlockMap_def processBlock_def posKey_def plainBlock_def
        plantTypeOf_def recordSummary_def startsWith_def Let_def)

lemma createBlock_double_fern_bottom: "fst (createBlock ev r ''double_plant_fern_bottom'' opts cs)
   = createDoublePlantBlock ev r ''double_plant_fern_bottom'' (propertiesOf ev ''double_plant_fern_bottom'')"
  by (simp add: createBlock_def isChainBlock_def endsWith_def startsWith_def isDoorBlock_def
       isGrindstoneBlock_def isSlabBlock_def isStairBlock_def isWallBlock_def isFenceBlock_def
       isTrapdoorBlock_def isLanternBlock_def isDoublePlant_def Let_def)


text \<open>
  Claim C2 does not hold as stated. Of two stacked records of type
  \<^verbatim>\<open>double_plant_fern\<close> the upper one is consumed and emits nothing: two
  records come out, not four. And a record above a double plant that comes
  before it in the list has already been pushed when the position is marked:
  three records come out, two of them at the upper position.
\<close>

theorem C2_double_plant_counterexample:
  "map recordSummary (processBlocks [plainBlock ''double_plant_fern'' 2 5 2,
                                      plainBlock ''double_plant_fern'' 2 6 2])
     = [(''double_plant_fern_bottom'', 2, 5, 2), (''double_plant_fern_top'', 2, 6, 2)]
   \<and> map recordSummary (processBlocks [plainBlock ''stone'' 2 6 2,
                                        plainBlock ''double_plant_fern'' 2 5 2])
     = [(''stone'', 2, 6, 2), (''double_plant_fern_bottom'', 2, 5, 2),
        (''double_plant_fern_top'', 2, 6, 2)]"
  using processBlocks_stacked_double_plants processBlocks_record_above_first by blast

text \<open>
  Claim C2 as amended. A record whose type contains \<^verbatim>\<open>double_plant\<close> and
  that the loop reaches unconsumed emits exactly two records, the bottom part
  at its position and the top part one above; every record at the upper
  position that comes later in the list is consumed, the rest of the run being
  the run on the list without those records. Both emitted types are double
  plants for \<^verbatim>\<open>isDoublePlant\<close>, \<^verbatim>\<open>createDoublePlantBlock\<close> builds
  either as two crossed planes, and \<^verbatim>\<open>createBlock\<close> hands a type to that
  builder when none of its earlier tests holds of the type.
\<close>

theorem C2_double_plant_synthesis:
  fixes b :: block
  assumes "str_includes (b_type b) ''double_plant''" and "m (posKey b) \<noteq> Some None"
  shows "(\<exists>bottom top.
            processLoop m (b # rest) =
              [bottom, top]
                @ processLoop (m((b_x b, b_y b + 1, b_z b) \<mapsto> None))
                    (filter (\<lambda>c. posKey c \<noteq> (b_x b, b_y b + 1, b_z b)) rest)
          \<and> recordSummary bottom =
              (''double_plant_'' @ plantTypeOf (b_type b) @ ''_bottom'', b_x b, b_y b, b_z b)
          \<and> recordSummary top =
              (''double_plant_'' @ plantTypeOf (b_type b) @ ''_top'', b_x b, b_y b + 1, b_z b)
          \<and> isDoublePlant (b_type bottom) \<and> isDoublePlant (b_type top)
          \<and> (\<exists>yaw. createDoublePlantBlock ev r (b_type bottom) properties =
                Inr (Group (b_type bottom)
                       (crossedPlanes (plantMaterial ev (b_type bottom) properties))
                       (0, - (1 / 2), 0) (0, yaw, 0)))
          \<and> (\<exists>yaw. createDoublePlantBlock ev r (b_type top) properties' =
                Inr (Group (b_type top)
                       (crossedPlanes (plantMaterial ev (b_type top) properties'))
                       (0, - (1 / 2), 0) (0, yaw, 0)))
          \<and> (reachesPlantTests (b_type bottom) \<longrightarrow>
                createBlock ev r (b_type bottom) opts cs =
                  (createDoublePlantBlock ev r (b_type bottom)
                     (propertiesOf ev (b_type bottom)), cs))
          \<and> (reachesPlantTests (b_type top) \<longrightarrow>
                createBlock ev r (b_type top) opts cs =
                  (createDoublePlantBlock ev r (b_type top)
                     (propertiesOf ev (b_type top)), cs)))"
proof -
  let ?above = "(b_x b, b_y b + 1, b_z b)"
  let ?bottom = "b\<lparr> b_type := ''double_plant_'' @ plantTypeOf (b_type b) @ ''_bottom'',
                    b_is_double_plant_bottom := True \<rparr>"
  let ?top = "(plainBlock (''double_plant_'' @ plantTypeOf (b_type b) @ ''_top'')
                 (b_x b) (b_y b + 1) (b_z b))\<lparr> b_is_double_plant_top := True \<rparr>"
  have mk: "(m(?above \<mapsto> None)) ?above = Some None"
    by simp
  have loop: "processLoop m (b # rest) =
      [?bottom, ?top] @ processLoop (m(?above \<mapsto> None)) (filter (\<lambda>c. posKey c \<noteq> ?above) rest)"
    using processBlock_double_plant [of b m] assms
      processLoop_skips_marked [of "m(?above \<mapsto> None)" ?above rest] mk
    by simp
  have s: "recordSummary ?bottom =
              (''double_plant_'' @ plantTypeOf (b_type b) @ ''_bottom'', b_x b, b_y b, b_z b)"
    "recordSummary ?top =
              (''double_plant_'' @ plantTypeOf (b_type b) @ ''_top'', b_x b, b_y b + 1, b_z b)"
    by (simp_all add: recordSummary_def plainBlock_def)
  have t: "b_type ?bottom = ''double_plant_'' @ plantTypeOf (b_type b) @ ''_bottom''"
    "b_type ?top = ''double_plant_'' @ plantTypeOf (b_type b) @ ''_top''"
    by (simp_all add: plainBlock_def)
  have d: "isDoublePlant (b_type ?bottom)" "isDoublePlant (b_type ?top)"
    unfolding t by (rule isDoublePlant_parts)+
  have c: "\<exists>yaw. createDoublePlantBlock ev r ty p =
                Inr (Group ty (crossedPlanes (plantMaterial ev ty p)) (0, - (1 / 2), 0) (0, yaw, 0))"
    for ty p
    by (simp add: createDoublePlantBlock_def)
  have e: "reachesPlantTests ty \<longrightarrow>
             createBlock ev r ty opts cs =
               (createDoublePlantBlock ev r ty (propertiesOf ev ty), cs)"
    if "isDoublePlant ty" for ty
    using that by (simp add: createBlock_plant_dispatch)
  from loop s d c [of "b_type ?bottom" properties] c [of "b_type ?top" properties']
    e [OF d(1)] e [OF d(2)]
  show ?thesis by blast
qed


text \<open>
  The theorem at the snapshot of a double fern at \<open>(2, 5, 2)\<close> followed by a
  stone at \<open>(2, 6, 2)\<close>: the bottom and the top part come out and the stone does
  not.
\<close>

theorem C2_double_plant_synthesis_witness:
  "str_includes ''double_plant_fern'' ''double_plant''
   \<and> map recordSummary (processBlocks [plainBlock ''double_plant_fern'' 2 5 2,
                                        plainBlock ''stone'' 2 6 2])
       = [(''double_plant_fern_bottom'', 2, 5, 2), (''double_plant_fern_top'', 2, 6, 2)]
   \<and> reachesPlantTests ''double_plant_fern_bottom''
   \<and> reachesPlantTests ''double_plant_fern_top''"
proof -
  let ?b = "plainBlock ''double_plant_fern'' 2 5 2"
  let ?s = "plainBlock ''stone'' 2 6 2"
  let ?m = "buildBlockMap [?b, ?s]"
  have i: "str_includes (b_type ?b) ''double_plant''"
    by (simp add: plainBlock_def startsWith_def)
  have n: "?m (posKey ?b) \<noteq> Some None"
    by (simp add: buildBlockMap_def posKey_def plainBlock_def)
  have f: "filter (\<lambda>c. posKey c \<noteq> (b_x ?b, b_y ?b + 1, b_z ?b)) [?s] = []"
    by (simp add: posKey_def plainBlock_def)
  have p: "plantTypeOf (b_type ?b) = ''fern''"
    by (simp add: plantTypeOf_def plainBlock_def)
  have xyz: "b_x ?b = 2" "b_y ?b = 5" "b_z ?b = 2"
    by (simp_all add: plainBlock_def)
  from C2_double_plant_synthesis [of ?b ?m "[?s]" envAllLoad 0 noProps noProps] i n
  obtain bottom top where
    l: "processLoop ?m (?b # [?s]) =
          [bottom, top]
            @ processLoop (?m((b_x ?b, b_y ?b + 1, b_z ?b) \<mapsto> None))
                (filter (\<lambda>c. posKey c \<noteq> (b_x ?b, b_y ?b + 1, b_z ?b)) [?s])"
    and sb: "recordSummary bottom =
          (''double_plant_'' @ plantTypeOf (b_type ?b) @ ''_bottom'', b_x ?b, b_y ?b, b_z ?b)"
    and st: "recordSummary top =
          (''double_plant_'' @ plantTypeOf (b_type ?b) @ ''_top'', b_x ?b, b_y ?b + 1, b_z ?b)"
    by blast
  from l have "processBlocks [?b, ?s] = [bottom, top]"
    unfolding f by (simp add: processBlocks_def)
  with sb st have "map recordSummary (processBlocks [?b, ?s])
       = [(''double_plant_fern_bottom'', 2, 5, 2), (''double_plant_fern_top'', 2, 6, 2)]"
    by (simp add: p xyz)
  with i reachesPlantTests_examples(2,3) show ?thesis by (simp add: plainBlock_def)
qed

end
